theory Spec2Isabelle
  imports Complex_Main "HOL-Library.Word"
begin

section \<open>Values of the platform\<close>

text \<open>
  A Node \<open>Buffer\<close> is a list of bytes. A thrown JavaScript error is a value; the handlers
  only ever read its \<open>message\<close>.
\<close>

type_synonym buffer = "8 word list"

datatype js_error =
    Error string
  | RangeError string
  | TypeError string
  | Rejection "string option"

fun message :: "js_error \<Rightarrow> string option" where
  "message (Error m) = Some m"
| "message (RangeError m) = Some m"
| "message (TypeError m) = Some m"
| "message (Rejection m) = m"

definition and_then :: "js_error + 'a \<Rightarrow> ('a \<Rightarrow> js_error + 'b) \<Rightarrow> js_error + 'b" where
  "and_then r f = (case r of Inl e \<Rightarrow> Inl e | Inr x \<Rightarrow> f x)"

section \<open>Buffer primitives used by the encoder\<close>

text \<open>
  \<open>Buffer.alloc n\<close> is \<open>n\<close> zero bytes. \<open>buf.write(s, off)\<close> stores the bytes of an ASCII
  string and drops what does not fit; it throws a \<open>RangeError\<close> when \<open>off\<close> lies beyond the
  end of the buffer. \<open>buf.writeUInt32LE(v, off)\<close> and
  \<open>buf.writeUInt16LE(v, off)\<close> throw a \<open>RangeError\<close> when \<open>v\<close> lies outside the unsigned
  range of the field or the field does not fit in the buffer; otherwise they store the
  integer part of \<open>v\<close>, least significant byte first. JavaScript numbers are modelled by
  exact rationals, which agree with IEEE doubles on every integer below \<open>2 ^ 53\<close>.
\<close>

definition alloc :: "nat \<Rightarrow> buffer" where
  "alloc n = replicate n 0"

definition utf8 :: "string \<Rightarrow> buffer" where
  "utf8 s = map (\<lambda>c. of_nat (of_char c)) s"

definition buf_write :: "buffer \<Rightarrow> string \<Rightarrow> nat \<Rightarrow> js_error + buffer" where
  "buf_write buf s off =
     (if length buf < off then Inl (RangeError ''ERR_OUT_OF_RANGE'')
      else Inr (take off buf @ take (length buf - off) (utf8 s) @ drop (off + length s) buf))"

definition le16 :: "nat \<Rightarrow> buffer" where
  "le16 n = [of_nat n, of_nat (n div 256)]"

definition le32 :: "nat \<Rightarrow> buffer" where
  "le32 n = [of_nat n, of_nat (n div 256), of_nat (n div 65536), of_nat (n div 16777216)]"

definition writeUInt32LE :: "buffer \<Rightarrow> rat \<Rightarrow> nat \<Rightarrow> js_error + buffer" where
  "writeUInt32LE buf v off =
     (if v > 4294967295 \<or> v < 0 then Inl (RangeError ''ERR_OUT_OF_RANGE'')
      else if length buf < off + 4 then Inl (RangeError ''ERR_BUFFER_OUT_OF_BOUNDS'')
      else Inr (take off buf @ le32 (nat \<lfloor>v\<rfloor>) @ drop (off + 4) buf))"

definition writeUInt16LE :: "buffer \<Rightarrow> rat \<Rightarrow> nat \<Rightarrow> js_error + buffer" where
  "writeUInt16LE buf v off =
     (if v > 65535 \<or> v < 0 then Inl (RangeError ''ERR_OUT_OF_RANGE'')
      else if length buf < off + 2 then Inl (RangeError ''ERR_BUFFER_OUT_OF_BOUNDS'')
      else Inr (take off buf @ le16 (nat \<lfloor>v\<rfloor>) @ drop (off + 2) buf))"

section \<open>The WAV encoder\<close>

text \<open>Every call of the encoder in the server passes all four arguments, so the default
  values of the parameters are never used.\<close>

definition pcm16ToWav :: "buffer \<Rightarrow> nat \<Rightarrow> nat \<Rightarrow> nat \<Rightarrow> js_error + buffer" where
  "pcm16ToWav pcmBuffer sampleRate channels bitsPerSample =
     (let header = alloc 44;
          byteRate = (of_nat sampleRate :: rat) * of_nat channels * (of_nat bitsPerSample / 8);
          blockAlign = (of_nat channels :: rat) * (of_nat bitsPerSample / 8)
      in and_then (buf_write header ''RIFF'' 0) (\<lambda>header.
         and_then (writeUInt32LE header (36 + of_nat (length pcmBuffer)) 4) (\<lambda>header.
         and_then (buf_write header ''WAVE'' 8) (\<lambda>header.
         and_then (buf_write header ''fmt '' 12) (\<lambda>header.
         and_then (writeUInt32LE header 16 16) (\<lambda>header.
         and_then (writeUInt16LE header 1 20) (\<lambda>header.
         and_then (writeUInt16LE header (of_nat channels) 22) (\<lambda>header.
         and_then (writeUInt32LE header (of_nat sampleRate) 24) (\<lambda>header.
         and_then (writeUInt32LE header byteRate 28) (\<lambda>header.
         and_then (writeUInt16LE header blockAlign 32) (\<lambda>header.
         and_then (writeUInt16LE header (of_nat bitsPerSample) 34) (\<lambda>header.
         and_then (buf_write header ''data'' 36) (\<lambda>header.
         and_then (writeUInt32LE header (of_nat (length pcmBuffer)) 40) (\<lambda>header.
         Inr (header @ pcmBuffer)))))))))))))))"


fun le_value :: "buffer \<Rightarrow> nat" where
  "le_value [] = 0"
| "le_value (b # bs) = unat b + 256 * le_value bs"

section \<open>JSON values and the coercions the handlers apply\<close>

text \<open>
  A parsed JSON value. A property that is absent reads as \<open>undefined\<close>, modelled by
  \<open>None\<close>. A string is held in its UTF-8 encoding, one \<open>char\<close> for each byte, so that
  every character of a JavaScript string can be written.
\<close>

datatype jsval =
    JNull
  | JBool bool
  | JNum rat
  | JStr string
  | JArr "jsval list"
  | JObj "(string \<times> jsval) list"

fun truthy :: "jsval \<Rightarrow> bool" where
  "truthy JNull = False"
| "truthy (JBool b) = b"
| "truthy (JNum r) = (r \<noteq> 0)"
| "truthy (JStr s) = (s \<noteq> [])"
| "truthy (JArr _) = True"
| "truthy (JObj _) = True"

text \<open>\<open>x || d\<close> for a property \<open>x\<close> that may be absent.\<close>

definition or_else :: "jsval option \<Rightarrow> jsval \<Rightarrow> jsval" where
  "or_else x d = (case x of None \<Rightarrow> d | Some v \<Rightarrow> if truthy v then v else d)"

text \<open>
  \<open>String.prototype.trim\<close> removes white space and line terminators from both ends. The
  characters it removes are the code points of \<open>WHITE_SPACE\<close>: TAB, LF, VT, FF, CR, SP,
  NBSP, U+1680, U+2000 to U+200A, LS, PS, U+202F, U+205F, U+3000 and the byte order mark
  U+FEFF. In UTF-8 six of them take one byte, NBSP takes two and the others three;
  \<open>white1\<close>, \<open>white2\<close> and \<open>white3\<close> recognise these encodings, \<open>dropWhite\<close> removes them
  from the front of a string, and \<open>trim\<close> does so at both ends (at the end the bytes of
  a character are met in reverse).
\<close>

definition WHITE_SPACE :: "nat list" where
  "WHITE_SPACE =
     [0x9, 0xA, 0xB, 0xC, 0xD, 0x20, 0xA0, 0x1680,
      0x2000, 0x2001, 0x2002, 0x2003, 0x2004, 0x2005, 0x2006, 0x2007, 0x2008, 0x2009, 0x200A,
      0x2028, 0x2029, 0x202F, 0x205F, 0x3000, 0xFEFF]"

definition utf8_enc :: "nat \<Rightarrow> string" where
  "utf8_enc n =
     (if n < 0x80 then [char_of n]
      else if n < 0x800 then [char_of (0xC0 + n div 64), char_of (0x80 + n mod 64)]
      else if n < 0x10000
      then [char_of (0xE0 + n div 4096), char_of (0x80 + n div 64 mod 64),
            char_of (0x80 + n mod 64)]
      else [char_of (0xF0 + n div 262144), char_of (0x80 + n div 4096 mod 64),
            char_of (0x80 + n div 64 mod 64), char_of (0x80 + n mod 64)])"

definition utf8_string :: "nat list \<Rightarrow> string" where
  "utf8_string cps = concat (map utf8_enc cps)"

definition white1 :: "char \<Rightarrow> bool" where
  "white1 c = (of_char c \<in> {0x09, 0x0A, 0x0B, 0x0C, 0x0D, 0x20 :: nat})"

definition white2 :: "char \<Rightarrow> char \<Rightarrow> bool" where
  "white2 c d = (of_char c = (0xC2 :: nat) \<and> of_char d = (0xA0 :: nat))"

definition white3 :: "char \<Rightarrow> char \<Rightarrow> char \<Rightarrow> bool" where
  "white3 c d e =
     (let a = (of_char c :: nat); b = (of_char d :: nat); x = (of_char e :: nat) in
      a = 0xE1 \<and> b = 0x9A \<and> x = 0x80
      \<or> a = 0xE2 \<and> b = 0x80 \<and> (0x80 \<le> x \<and> x \<le> 0x8A \<or> x = 0xA8 \<or> x = 0xA9 \<or> x = 0xAF)
      \<or> a = 0xE2 \<and> b = 0x81 \<and> x = 0x9F
      \<or> a = 0xE3 \<and> b = 0x80 \<and> x = 0x80
      \<or> a = 0xEF \<and> b = 0xBB \<and> x = 0xBF)"

fun dropWhite ::
  "(char \<Rightarrow> bool) \<Rightarrow> (char \<Rightarrow> char \<Rightarrow> bool) \<Rightarrow> (char \<Rightarrow> char \<Rightarrow> char \<Rightarrow> bool) \<Rightarrow> string
     \<Rightarrow> string" where
  "dropWhite p1 p2 p3 [] = []"
| "dropWhite p1 p2 p3 (c # s) =
     (if p1 c then dropWhite p1 p2 p3 s
      else case s of
        [] \<Rightarrow> [c]
      | d # s' \<Rightarrow>
          if p2 c d then dropWhite p1 p2 p3 s'
          else (case s' of
                  [] \<Rightarrow> c # s
                | e # s'' \<Rightarrow> if p3 c d e then dropWhite p1 p2 p3 s'' else c # s))"

definition trim :: "string \<Rightarrow> string" where
  "trim s =
     rev (dropWhite white1 (\<lambda>c d. white2 d c) (\<lambda>c d e. white3 e d c)
            (rev (dropWhite white1 white2 white3 s)))"

text \<open>
  The built-in conversions are part of the language, not of the server. What the server
  relies on is written out: a string converts to itself, a number to itself, a string of
  decimal digits that denotes a number below \<open>2 ^ 53\<close> to that number. Every other
  conversion is left to the
  platform: \<open>toStringOf\<close> may throw (an object whose \<open>toString\<close> property is not a
  function), and so may \<open>toNumberOf\<close>, which answers \<open>None\<close> for a value that is not a
  finite number.
  \<open>base64decode\<close> is \<open>Buffer.from(s, 'base64')\<close> and \<open>base64encode\<close> is
  \<open>buf.toString('base64')\<close>.
\<close>

record platform =
  toStringOf :: "jsval \<Rightarrow> js_error + string"
  toNumberOf :: "jsval \<Rightarrow> js_error + rat option"
  base64decode :: "string \<Rightarrow> buffer"
  base64encode :: "buffer \<Rightarrow> string"

definition js_toString :: "platform \<Rightarrow> jsval \<Rightarrow> js_error + string" where
  "js_toString P v = (case v of JStr s \<Rightarrow> Inr s | _ \<Rightarrow> toStringOf P v)"

definition isDigit :: "char \<Rightarrow> bool" where
  "isDigit c = (48 \<le> (of_char c :: nat) \<and> (of_char c :: nat) \<le> 57)"

definition digits_value :: "string \<Rightarrow> nat" where
  "digits_value s = foldl (\<lambda>a c. 10 * a + (of_char c - 48)) 0 s"

definition js_Number :: "platform \<Rightarrow> jsval \<Rightarrow> js_error + rat option" where
  "js_Number P v =
     (case v of
        JNum r \<Rightarrow> Inr (Some r)
      | JStr s \<Rightarrow> if s \<noteq> [] \<and> list_all isDigit s \<and> digits_value s < 9007199254740992
                  then Inr (Some (of_nat (digits_value s)))
                  else toNumberOf P v
      | _ \<Rightarrow> toNumberOf P v)"

section \<open>Configuration, the outside world, the caches\<close>

record config =
  DEFAULT_MODEL :: string
  DEFAULT_VOICE :: string
  VAPI_TTS_SECRET :: "string option"

text \<open>
  One call of \<open>ai.models.generateContent\<close> takes the model, the text and the voice name.
  The promise it returns is rejected, or is fulfilled with a response of which the
  server reads \<open>candidates[0].content.parts[0].inlineData.data\<close> (\<open>None\<close> when any step
  of that path is missing). The call takes \<open>elapsed\<close> milliseconds; nothing else the
  server does takes time.
\<close>

type_synonym gen_request = "jsval \<times> string \<times> jsval"

datatype gen_reply = Rejected js_error | Response "string option"

record gen_outcome =
  elapsed :: nat
  reply :: gen_reply

text \<open>
  What the outside world answers while one request (or one item of a batch) is served,
  should it be asked: the backend's outcome, the identifier \<open>crypto.randomUUID\<close> draws,
  and the error \<open>fs.writeFileSync\<close> throws, if any.
\<close>

record outside =
  gen :: gen_outcome
  uuid :: string
  fs_error :: "js_error option"

datatype wav_entry = WavEntry (wavBuf: buffer) (createdAt: int)

datatype pcm_entry = PcmEntry (pcm: buffer) (pcm_createdAt: int)

text \<open>
  The state of the process: the two caches, the clock \<open>Date.now\<close> reads, the calls made
  to the backend so far, and the files under \<open>public/audio\<close>.
\<close>

record world =
  audioCache :: "string \<rightharpoonup> wav_entry"
  pcmCache :: "string \<rightharpoonup> pcm_entry"
  clock :: int
  calls :: "gen_request list"
  files :: "string \<rightharpoonup> buffer"

definition CACHE_TTL_MS :: int where
  "CACHE_TTL_MS = 10 * 60 * 1000"

definition makeKey :: "platform \<Rightarrow> string \<Rightarrow> jsval \<Rightarrow> jsval \<Rightarrow> js_error + string" where
  "makeKey P text voice model =
     and_then (js_toString P model) (\<lambda>m.
     and_then (js_toString P voice) (\<lambda>v.
     Inr (m @ ''::'' @ v @ ''::'' @ text)))"

definition invoke :: "gen_request \<Rightarrow> outside \<Rightarrow> world \<Rightarrow> world" where
  "invoke rq ext w = w\<lparr>calls := calls w @ [rq], clock := clock w + int (elapsed (gen ext))\<rparr>"

definition NO_AUDIO :: js_error where
  "NO_AUDIO = Error ''No audio produced by model''"

section \<open>The gateway\<close>

text \<open>
  \<open>synthesizeToWav\<close> reads the clock once, before the cache is consulted, and stamps the
  entry it stores with that reading. The world it returns is the world when its promise
  settles. An exception thrown anywhere inside rejects the promise. \<open>fetchWav\<close> is the
  part of the function after the cache check: the call of the backend, the decoding, the
  wrapping, the insertion into the cache. \<open>synthesizeToPcm\<close> and \<open>fetchPcm\<close> are the same
  for the raw PCM, with a cache of their own.
\<close>

definition fetchWav ::
  "platform \<Rightarrow> string \<Rightarrow> int \<Rightarrow> gen_request \<Rightarrow> outside \<Rightarrow> world \<Rightarrow> (js_error + buffer) \<times> world" where
  "fetchWav P key now rq ext w =
     (let w1 = invoke rq ext w in
      case reply (gen ext) of
        Rejected e \<Rightarrow> (Inl e, w1)
      | Response None \<Rightarrow> (Inl NO_AUDIO, w1)
      | Response (Some base64) \<Rightarrow>
          if base64 = [] then (Inl NO_AUDIO, w1)
          else
            let pcm' = base64decode P base64 in
            (case pcm16ToWav pcm' 24000 1 16 of
               Inl e \<Rightarrow> (Inl e, w1)
             | Inr wavBuf' \<Rightarrow>
                 (Inr wavBuf',
                  w1\<lparr>audioCache := (audioCache w1)(key \<mapsto> WavEntry wavBuf' now)\<rparr>)))"

definition synthesizeToWav ::
  "platform \<Rightarrow> string \<Rightarrow> jsval \<Rightarrow> jsval \<Rightarrow> outside \<Rightarrow> world \<Rightarrow> (js_error + buffer) \<times> world" where
  "synthesizeToWav P text voice model ext w =
     (case makeKey P text voice model of
        Inl e \<Rightarrow> (Inl e, w)
      | Inr k \<Rightarrow>
          let key = ''wav::'' @ k; now = clock w; hit = audioCache w key in
          if (case hit of None \<Rightarrow> False | Some h \<Rightarrow> now - createdAt h < CACHE_TTL_MS)
          then (Inr (wavBuf (the hit)), w)
          else fetchWav P key now (model, text, voice) ext w)"

definition fetchPcm ::
  "platform \<Rightarrow> string \<Rightarrow> int \<Rightarrow> gen_request \<Rightarrow> outside \<Rightarrow> world \<Rightarrow> (js_error + buffer) \<times> world" where
  "fetchPcm P key now rq ext w =
     (let w1 = invoke rq ext w in
      case reply (gen ext) of
        Rejected e \<Rightarrow> (Inl e, w1)
      | Response None \<Rightarrow> (Inl NO_AUDIO, w1)
      | Response (Some base64) \<Rightarrow>
          if base64 = [] then (Inl NO_AUDIO, w1)
          else
            let pcm' = base64decode P base64 in
            (Inr pcm', w1\<lparr>pcmCache := (pcmCache w1)(key \<mapsto> PcmEntry pcm' now)\<rparr>))"

definition synthesizeToPcm ::
  "platform \<Rightarrow> string \<Rightarrow> jsval \<Rightarrow> jsval \<Rightarrow> outside \<Rightarrow> world \<Rightarrow> (js_error + buffer) \<times> world" where
  "synthesizeToPcm P text voice model ext w =
     (case makeKey P text voice model of
        Inl e \<Rightarrow> (Inl e, w)
      | Inr k \<Rightarrow>
          let key = ''pcm::'' @ k; now = clock w; hit = pcmCache w key in
          if (case hit of None \<Rightarrow> False | Some h \<Rightarrow> now - pcm_createdAt h < CACHE_TTL_MS)
          then (Inr (pcm (the hit)), w)
          else fetchPcm P key now (model, text, voice) ext w)"

section \<open>The routes\<close>

text \<open>
  Of a request the handlers read the parsed body and a few headers. A body that is
  missing or is not an object has no property, so all its fields are \<open>None\<close>; the same
  holds for a batch item and for the \<open>message\<close> of the webhook, except that a
  \<open>message\<close> that is missing or falsy is \<open>None\<close> itself.
\<close>

record request_meta =
  x_forwarded_proto :: "string option"
  protocol :: string
  x_forwarded_host :: "string option"
  host :: "string option"
  x_vapi_signature :: "string option"

record tts_body =
  body_text :: "jsval option"
  body_voice :: "jsval option"
  body_model :: "jsval option"
  body_return :: "jsval option"

record batch_item =
  item_text :: "jsval option"
  item_voice :: "jsval option"
  item_model :: "jsval option"

record vapi_message =
  msg_type :: "jsval option"
  msg_text :: "jsval option"
  msg_sampleRate :: "jsval option"

datatype response =
    Json (status: nat) "(string \<times> jsval) list"
  | Send (status: nat) "(string \<times> string) list" buffer

definition getPublicOrigin :: "request_meta \<Rightarrow> string" where
  "getPublicOrigin req =
     (let proto = (case x_forwarded_proto req of
                     None \<Rightarrow> protocol req
                   | Some p \<Rightarrow> if p \<noteq> [] then p else protocol req);
          h = (case x_forwarded_host req of
                 None \<Rightarrow> host req
               | Some x \<Rightarrow> if x \<noteq> [] then Some x else host req)
      in proto @ ''://'' @ (case h of None \<Rightarrow> ''undefined'' | Some x \<Rightarrow> x))"

text \<open>The \<open>catch\<close> of the single-item routes; \<open>detail\<close> is left out of the JSON when the
  error has no message.\<close>

definition tts_failed :: "js_error \<Rightarrow> response" where
  "tts_failed err =
     Json 500 ((''error'', JStr ''TTS failed'')
               # (case message err of None \<Rightarrow> [] | Some m \<Rightarrow> [(''detail'', JStr m)]))"

definition MISSING_TEXT :: response where
  \<open>MISSING_TEXT = Json 400 [(''error'', JStr ''Missing required "text" string.'')]\<close>

text \<open>The answer of \<open>/tts\<close> once the audio is there: the base64 envelope when the body asks
  for it, the bytes of the WAV otherwise.\<close>

definition tts_reply :: "platform \<Rightarrow> jsval \<Rightarrow> jsval \<Rightarrow> jsval option \<Rightarrow> buffer \<Rightarrow> response" where
  \<open>tts_reply P useModel useVoice ret wavBuf' =
     (if ret = Some (JStr ''base64'')
      then Json 200
             [(''audio'', JStr (base64encode P wavBuf')),
              (''mimeType'', JStr ''audio/wav''),
              (''sampleRate'', JNum 24000),
              (''channels'', JNum 1),
              (''model'', useModel),
              (''voice'', useVoice)]
      else Send 200
             [(''Content-Type'', ''audio/wav''),
              (''Content-Disposition'', ''inline; filename="speech.wav"'')]
             wavBuf')\<close>

definition tts ::
  "config \<Rightarrow> platform \<Rightarrow> tts_body \<Rightarrow> outside \<Rightarrow> world \<Rightarrow> response \<times> world" where
  \<open>tts C P body ext w =
     (case js_toString P (or_else (body_text body) (JStr [])) of
        Inl err \<Rightarrow> (tts_failed err, w)
      | Inr t \<Rightarrow>
          if trim t = [] then (MISSING_TEXT, w)
          else
            let useModel = or_else (body_model body) (JStr (DEFAULT_MODEL C));
                useVoice = or_else (body_voice body) (JStr (DEFAULT_VOICE C))
            in (case synthesizeToWav P t useVoice useModel ext w of
                  (Inl err, w') \<Rightarrow> (tts_failed err, w')
                | (Inr wavBuf', w') \<Rightarrow>
                    (tts_reply P useModel useVoice (body_return body) wavBuf', w')))\<close>

definition tts_url ::
  "config \<Rightarrow> platform \<Rightarrow> request_meta \<Rightarrow> tts_body \<Rightarrow> outside \<Rightarrow> world \<Rightarrow> response \<times> world" where
  "tts_url C P req body ext w =
     (case js_toString P (or_else (body_text body) (JStr [])) of
        Inl err \<Rightarrow> (tts_failed err, w)
      | Inr t \<Rightarrow>
          if trim t = [] then (MISSING_TEXT, w)
          else
            let useModel = or_else (body_model body) (JStr (DEFAULT_MODEL C));
                useVoice = or_else (body_voice body) (JStr (DEFAULT_VOICE C))
            in (case synthesizeToWav P t useVoice useModel ext w of
                  (Inl err, w') \<Rightarrow> (tts_failed err, w')
                | (Inr wavBuf', w') \<Rightarrow>
                    let id = uuid ext; filename = id @ ''.wav'' in
                    (case fs_error ext of
                       Some err \<Rightarrow> (tts_failed err, w')
                     | None \<Rightarrow>
                         let url = getPublicOrigin req @ ''/audio/'' @ filename in
                         (Json 200
                            [(''url'', JStr url),
                             (''sampleRate'', JNum 24000),
                             (''channels'', JNum 1),
                             (''model'', useModel),
                             (''voice'', useVoice)],
                          w'\<lparr>files := (files w')(filename \<mapsto> wavBuf')\<rparr>))))"

text \<open>
  One job of \<open>/batch-url\<close>. All jobs of a batch are started before any of them is
  resumed, so each reads the caches and the clock as they are when the batch arrives,
  and its result is that of \<open>synthesizeToWav\<close> in that world. The \<open>catch\<close> of the job
  turns every exception into an object with the single property \<open>error\<close>.
\<close>

definition job_failed :: "js_error \<Rightarrow> (string \<times> jsval) list" where
  "job_failed e =
     [(''error'', JStr (case message e of
                          None \<Rightarrow> ''synthesis failed''
                        | Some m \<Rightarrow> if m \<noteq> [] then m else ''synthesis failed''))]"

definition batch_job ::
  "config \<Rightarrow> platform \<Rightarrow> request_meta \<Rightarrow> world \<Rightarrow> batch_item \<Rightarrow> outside \<Rightarrow> (string \<times> jsval) list" where
  "batch_job C P req w item ext =
     (case js_toString P (or_else (item_text item) (JStr [])) of
        Inl e \<Rightarrow> job_failed e
      | Inr t \<Rightarrow>
          if trim t = [] then [(''error'', JStr ''Missing text'')]
          else
            let useModel = or_else (item_model item) (JStr (DEFAULT_MODEL C));
                useVoice = or_else (item_voice item) (JStr (DEFAULT_VOICE C))
            in (case fst (synthesizeToWav P t useVoice useModel ext w) of
                  Inl e \<Rightarrow> job_failed e
                | Inr wavBuf' \<Rightarrow>
                    let id = uuid ext; filename = id @ ''.wav'' in
                    (case fs_error ext of
                       Some e \<Rightarrow> job_failed e
                     | None \<Rightarrow>
                         let url = getPublicOrigin req @ ''/audio/'' @ filename in
                         [(''text'', JStr t),
                          (''url'', JStr url),
                          (''model'', useModel),
                          (''voice'', useVoice),
                          (''sampleRate'', JNum 24000),
                          (''channels'', JNum 1)])))"

text \<open>\<open>items.map\<close> of the jobs under \<open>Promise.all\<close>: one result for each item, at the
  position of the item.\<close>

definition batch_results ::
  "config \<Rightarrow> platform \<Rightarrow> request_meta \<Rightarrow> batch_item list \<Rightarrow> (nat \<Rightarrow> outside) \<Rightarrow> world
     \<Rightarrow> jsval list" where
  "batch_results C P req its exts w =
     map (\<lambda>i. JObj (batch_job C P req w (its ! i) (exts i))) [0..<length its]"

text \<open>
  The response of \<open>/batch-url\<close>. \<open>items\<close> is \<open>None\<close> when the body has no array under that
  name; \<open>exts i\<close> is what the outside world answers to the job of item \<open>i\<close>. Nothing outside
  the jobs can throw, so the outer \<open>catch\<close> of the route is never entered. The entries
  and files the jobs leave behind depend on the order in which the backend answers them;
  the model gives the response of the route, which does not.
\<close>

definition batch_url ::
  "config \<Rightarrow> platform \<Rightarrow> request_meta \<Rightarrow> batch_item list option \<Rightarrow> (nat \<Rightarrow> outside) \<Rightarrow> world
     \<Rightarrow> response" where
  "batch_url C P req items exts w =
     (case items of
        None \<Rightarrow> Json 400 [(''error'', JStr ''Provide items: an array of { text, voice?, model? }'')]
      | Some its \<Rightarrow>
          if length its = 0
          then Json 400 [(''error'', JStr ''Provide items: an array of { text, voice?, model? }'')]
          else
            let results = batch_results C P req its exts w
            in Json 200 [(''results'', JArr results)])"

definition UNAUTHORIZED :: response where
  "UNAUTHORIZED = Json 401 [(''error'', JStr ''Unauthorized'')]"

definition INVALID_PAYLOAD :: response where
  \<open>INVALID_PAYLOAD =
     Json 400 [(''error'', JStr ''Invalid payload: expected message.type="voice-request"'')]\<close>

text \<open>\<open>/vapi-tts\<close> after the check of the shared secret.\<close>

definition vapi_voice_request ::
  "config \<Rightarrow> platform \<Rightarrow> vapi_message option \<Rightarrow> outside \<Rightarrow> world \<Rightarrow> response \<times> world" where
  "vapi_voice_request C P msg ext w =
     (case msg of
        None \<Rightarrow> (INVALID_PAYLOAD, w)
      | Some m \<Rightarrow>
          if msg_type m \<noteq> Some (JStr ''voice-request'') then (INVALID_PAYLOAD, w)
          else
            (case js_toString P (or_else (msg_text m) (JStr [])) of
               Inl err \<Rightarrow> (tts_failed err, w)
             | Inr text \<Rightarrow>
                 (case js_Number P (or_else (msg_sampleRate m) (JNum 24000)) of
                    Inl err \<Rightarrow> (tts_failed err, w)
                  | Inr sampleRate \<Rightarrow>
                      if trim text = [] then (Json 400 [(''error'', JStr ''Missing text'')], w)
                      else if sampleRate \<noteq> Some 24000
                      then (Json 400
                              [(''error'', JStr ''Only 24000 Hz supported by this TTS server'')], w)
                      else
                        let useModel = JStr (DEFAULT_MODEL C);
                            useVoice = JStr (DEFAULT_VOICE C)
                        in (case synthesizeToPcm P text useVoice useModel ext w of
                              (Inl err, w') \<Rightarrow> (tts_failed err, w')
                            | (Inr pcm', w') \<Rightarrow>
                                (Send 200 [(''Content-Type'', ''application/octet-stream'')] pcm',
                                 w')))))"

definition vapi_tts ::
  "config \<Rightarrow> platform \<Rightarrow> request_meta \<Rightarrow> vapi_message option \<Rightarrow> outside \<Rightarrow> world
     \<Rightarrow> response \<times> world" where
  "vapi_tts C P req msg ext w =
     (let expected = VAPI_TTS_SECRET C; token = x_vapi_signature req in
      if (case expected of None \<Rightarrow> False | Some s \<Rightarrow> s \<noteq> []) \<and> token \<noteq> expected
      then (UNAUTHORIZED, w)
      else vapi_voice_request C P msg ext w)"

text \<open>Reading a response: the properties of a JSON object, the body of a JSON response.\<close>

fun properties :: "jsval \<Rightarrow> string list" where
  "properties (JObj kvs) = map fst kvs"
| "properties _ = []"

fun json_body :: "response \<Rightarrow> (string \<times> jsval) list" where
  "json_body (Json _ kvs) = kvs"
| "json_body (Send _ _ _) = []"

section \<open>A stub deployment\<close>

text \<open>
  A small deployment for the examples: a backend that answers the base64 of four zero
  bytes after five seconds, a decoder that knows that one string, a process that has just
  started.
\<close>

definition stub_platform :: platform where
  "stub_platform =
     \<lparr>toStringOf = (\<lambda>v. Inr ''[object Object]''),
      toNumberOf = (\<lambda>v. Inr None),
      base64decode = (\<lambda>s. if s = ''AAAAAA=='' then [0, 0, 0, 0] else []),
      base64encode = (\<lambda>b. ''AAAAAA=='')\<rparr>"

definition stub_config :: config where
  "stub_config =
     \<lparr>DEFAULT_MODEL = ''gemini-2.5-flash-preview-tts'', DEFAULT_VOICE = ''Kore'',
      VAPI_TTS_SECRET = None\<rparr>"

definition stub_outside :: outside where
  "stub_outside =
     \<lparr>gen = \<lparr>elapsed = 5000, reply = Response (Some ''AAAAAA=='')\<rparr>,
      uuid = ''0b5e'', fs_error = None\<rparr>"

definition failing_outside :: outside where
  "failing_outside =
     \<lparr>gen = \<lparr>elapsed = 5000, reply = Rejected (Rejection (Some ''quota exceeded''))\<rparr>,
      uuid = ''0b5f'', fs_error = None\<rparr>"

definition start_world :: world where
  "start_world =
     \<lparr>audioCache = Map.empty, pcmCache = Map.empty, clock = 0, calls = [], files = Map.empty\<rparr>"

definition stub_wav :: buffer where
  "stub_wav =
     [82, 73, 70, 70, 40, 0, 0, 0, 87, 65, 86, 69, 102, 109, 116, 32, 16, 0, 0, 0, 1, 0, 1, 0,
      192, 93, 0, 0, 128, 187, 0, 0, 2, 0, 16, 0, 100, 97, 116, 97, 4, 0, 0, 0, 0, 0, 0, 0]"

definition stub_request :: request_meta where
  "stub_request =
     \<lparr>x_forwarded_proto = Some ''https'', protocol = ''http'',
      x_forwarded_host = Some ''tts.example'', host = Some ''10.0.0.7:3000'',
      x_vapi_signature = None\<rparr>"

definition stub_body :: "string \<Rightarrow> tts_body" where
  "stub_body t =
     \<lparr>body_text = Some (JStr t), body_voice = Some (JStr ''Kore''),
      body_model = Some (JStr ''m1''), body_return = None\<rparr>"

definition stub_item :: "string \<Rightarrow> batch_item" where
  "stub_item t =
     \<lparr>item_text = Some (JStr t), item_voice = Some (JStr ''Kore''),
      item_model = Some (JStr ''m1'')\<rparr>"

text \<open>A batch in which the backend fails for the second item only.\<close>

definition stub_answers :: "nat \<Rightarrow> outside" where
  "stub_answers i =
     (if i = 1 then failing_outside
      else if i = 2 then stub_outside\<lparr>uuid := ''7c21''\<rparr>
      else stub_outside)"

definition stub_message :: "jsval option \<Rightarrow> vapi_message" where
  "stub_message rate =
     \<lparr>msg_type = Some (JStr ''voice-request''), msg_text = Some (JStr ''Hello''),
      msg_sampleRate = rate\<rparr>"

section \<open>The WAV header\<close>

lemma unat_byte: "unat (of_nat n :: 8 word) = n mod 256"
  by (simp add: unat_of_nat)

lemma le_value_le16:
  assumes "n < 65536"
  shows "le_value (le16 n) = n"
proof -
  have "n div 256 < 256"
    using assms by simp
  then have "n mod 256 + 256 * (n div 256 mod 256) = n"
    by simp
  then show ?thesis
    by (simp add: le16_def unat_byte)
qed











section \<open>The gateway and its caches\<close>

lemma pcm16ToWav_stub [simp]: "pcm16ToWav [0, 0, 0, 0] 24000 (Suc 0) 16 = Inr stub_wav"
  by (simp add: pcm16ToWav_def alloc_def buf_write_def writeUInt32LE_def writeUInt16LE_def
      and_then_def Let_def utf8_def le32_def le16_def stub_wav_def)

lemma makeKey_str: "makeKey P text (JStr v) (JStr m) = Inr (m @ ''::'' @ v @ ''::'' @ text)"
  by (simp add: makeKey_def js_toString_def and_then_def)

lemma synthesizeToWav_hit:
  assumes "makeKey P text voice model = Inr k"
    and "audioCache w (''wav::'' @ k) = Some h"
    and "clock w - createdAt h < CACHE_TTL_MS"
  shows "synthesizeToWav P text voice model ext w = (Inr (wavBuf h), w)"
  using assms by (simp add: synthesizeToWav_def)

lemma synthesizeToWav_miss:
  assumes "makeKey P text voice model = Inr k"
    and "\<And>h. audioCache w (''wav::'' @ k) = Some h \<Longrightarrow> CACHE_TTL_MS \<le> clock w - createdAt h"
  shows "synthesizeToWav P text voice model ext w
         = fetchWav P (''wav::'' @ k) (clock w) (model, text, voice) ext w"
  using assms by (cases "audioCache w (''wav::'' @ k)") (auto simp: synthesizeToWav_def)

lemma fetchWav_calls: "calls (snd (fetchWav P key now rq ext w)) = calls w @ [rq]"
  by (simp add: fetchWav_def invoke_def Let_def split: gen_reply.split option.split sum.split)

lemma fetchWav_clock:
  "clock (snd (fetchWav P key now rq ext w)) = clock w + int (elapsed (gen ext))"
  by (simp add: fetchWav_def invoke_def Let_def split: gen_reply.split option.split sum.split)

lemma fetchWav_pcmCache: "pcmCache (snd (fetchWav P key now rq ext w)) = pcmCache w"
  by (simp add: fetchWav_def invoke_def Let_def split: gen_reply.split option.split sum.split)

lemma fetchWav_result_world:
  "fst (fetchWav P key now rq ext w) = fst (fetchWav P key now rq ext w')"
  by (simp add: fetchWav_def Let_def split: gen_reply.split option.split sum.split)

lemma fetchWav_stored:
  assumes "fetchWav P key now rq ext w = (Inr buf, w')"
  shows "w' = (invoke rq ext w)\<lparr>audioCache := (audioCache w)(key \<mapsto> WavEntry buf now)\<rparr>"
  using assms
  by (auto simp: fetchWav_def invoke_def Let_def split: gen_reply.splits option.splits sum.splits if_splits)

lemma synthesizeToWav_success:
  assumes "synthesizeToWav P text voice model ext w = (Inr buf, w')"
  obtains k h where "makeKey P text voice model = Inr k"
    and "audioCache w' (''wav::'' @ k) = Some h" and "wavBuf h = buf"
    and "w' = w \<and> clock w - createdAt h < CACHE_TTL_MS
         \<or> h = WavEntry buf (clock w) \<and> fetchWav P (''wav::'' @ k) (clock w) (model, text, voice) ext w = (Inr buf, w')"
proof -
  from assms obtain k where k: "makeKey P text voice model = Inr k"
    by (auto simp: synthesizeToWav_def split: sum.splits)
  show thesis
  proof (cases "case audioCache w (''wav::'' @ k) of None \<Rightarrow> False
                | Some h \<Rightarrow> clock w - createdAt h < CACHE_TTL_MS")
    case True
    then obtain h where h: "audioCache w (''wav::'' @ k) = Some h"
      "clock w - createdAt h < CACHE_TTL_MS"
      by (auto split: option.splits)
    with k assms have "buf = wavBuf h" "w' = w"
      by (simp_all add: synthesizeToWav_hit)
    with h k that show thesis
      by blast
  next
    case False
    with k assms have f: "fetchWav P (''wav::'' @ k) (clock w) (model, text, voice) ext w = (Inr buf, w')"
      by (simp add: synthesizeToWav_def)
    from fetchWav_stored [OF f]
    have "audioCache w' (''wav::'' @ k) = Some (WavEntry buf (clock w))"
      by (simp add: invoke_def)
    with k f that show thesis
      by simp
  qed
qed

lemma synthesizeToPcm_hit:
  assumes "makeKey P text voice model = Inr k"
    and "pcmCache w (''pcm::'' @ k) = Some h"
    and "clock w - pcm_createdAt h < CACHE_TTL_MS"
  shows "synthesizeToPcm P text voice model ext w = (Inr (pcm h), w)"
  using assms by (simp add: synthesizeToPcm_def)

lemma synthesizeToPcm_miss:
  assumes "makeKey P text voice model = Inr k"
    and "\<And>h. pcmCache w (''pcm::'' @ k) = Some h \<Longrightarrow> CACHE_TTL_MS \<le> clock w - pcm_createdAt h"
  shows "synthesizeToPcm P text voice model ext w
         = fetchPcm P (''pcm::'' @ k) (clock w) (model, text, voice) ext w"
  using assms by (cases "pcmCache w (''pcm::'' @ k)") (auto simp: synthesizeToPcm_def)

lemma fetchPcm_calls: "calls (snd (fetchPcm P key now rq ext w)) = calls w @ [rq]"
  by (simp add: fetchPcm_def invoke_def Let_def split: gen_reply.split option.split)

lemma fetchPcm_clock:
  "clock (snd (fetchPcm P key now rq ext w)) = clock w + int (elapsed (gen ext))"
  by (simp add: fetchPcm_def invoke_def Let_def split: gen_reply.split option.split)

lemma fetchPcm_audioCache: "audioCache (snd (fetchPcm P key now rq ext w)) = audioCache w"
  by (simp add: fetchPcm_def invoke_def Let_def split: gen_reply.split option.split)

lemma fetchPcm_result_world:
  "fst (fetchPcm P key now rq ext w) = fst (fetchPcm P key now rq ext w')"
  by (simp add: fetchPcm_def Let_def split: gen_reply.split option.split)

lemma fetchPcm_stored:
  assumes "fetchPcm P key now rq ext w = (Inr buf, w')"
  shows "w' = (invoke rq ext w)\<lparr>pcmCache := (pcmCache w)(key \<mapsto> PcmEntry buf now)\<rparr>"
  using assms
  by (auto simp: fetchPcm_def invoke_def Let_def split: gen_reply.splits option.splits if_splits)

lemma synthesizeToPcm_success:
  assumes "synthesizeToPcm P text voice model ext w = (Inr buf, w')"
  obtains k h where "makeKey P text voice model = Inr k"
    and "pcmCache w' (''pcm::'' @ k) = Some h" and "pcm h = buf"
    and "w' = w \<and> clock w - pcm_createdAt h < CACHE_TTL_MS
         \<or> h = PcmEntry buf (clock w) \<and> fetchPcm P (''pcm::'' @ k) (clock w) (model, text, voice) ext w = (Inr buf, w')"
proof -
  from assms obtain k where k: "makeKey P text voice model = Inr k"
    by (auto simp: synthesizeToPcm_def split: sum.splits)
  show thesis
  proof (cases "case pcmCache w (''pcm::'' @ k) of None \<Rightarrow> False
                | Some h \<Rightarrow> clock w - pcm_createdAt h < CACHE_TTL_MS")
    case True
    then obtain h where h: "pcmCache w (''pcm::'' @ k) = Some h"
      "clock w - pcm_createdAt h < CACHE_TTL_MS"
      by (auto split: option.splits)
    with k assms have "buf = pcm h" "w' = w"
      by (simp_all add: synthesizeToPcm_hit)
    with h k that show thesis
      by blast
  next
    case False
    with k assms have f: "fetchPcm P (''pcm::'' @ k) (clock w) (model, text, voice) ext w = (Inr buf, w')"
      by (simp add: synthesizeToPcm_def)
    from fetchPcm_stored [OF f]
    have "pcmCache w' (''pcm::'' @ k) = Some (PcmEntry buf (clock w))"
      by (simp add: invoke_def)
    with k f that show thesis
      by simp
  qed
qed

lemma stub_first_call:
  "synthesizeToWav stub_platform ''Hello'' (JStr ''Kore'') (JStr ''m1'') stub_outside start_world
   = (Inr stub_wav,
      \<lparr>audioCache = [''wav::m1::Kore::Hello'' \<mapsto> WavEntry stub_wav 0], pcmCache = Map.empty,
       clock = 5000, calls = [(JStr ''m1'', ''Hello'', JStr ''Kore'')], files = Map.empty\<rparr>)"
  by (simp add: synthesizeToWav_def makeKey_str fetchWav_def invoke_def Let_def start_world_def
      stub_outside_def stub_platform_def pcm16ToWav_stub)

subsection \<open>Repeated requests\<close>

lemma synthesizeToWav_again:
  assumes "synthesizeToWav P text voice model ext1 w0 = (Inr buf1, w1)"
  shows "length (calls w1) \<le> length (calls w0) + 1
    \<and> (\<exists>k e. makeKey P text voice model = Inr k \<and> audioCache w1 (''wav::'' @ k) = Some e
          \<and> (\<forall>n2 ext2. n2 - createdAt e < CACHE_TTL_MS \<longrightarrow>
                synthesizeToWav P text voice model ext2 (w1\<lparr>clock := n2\<rparr>)
                = (Inr buf1, w1\<lparr>clock := n2\<rparr>)))"
proof -
  from assms obtain k h where k: "makeKey P text voice model = Inr k"
    and h: "audioCache w1 (''wav::'' @ k) = Some h" "wavBuf h = buf1"
    and how: "w1 = w0 \<and> clock w0 - createdAt h < CACHE_TTL_MS
         \<or> h = WavEntry buf1 (clock w0)
           \<and> fetchWav P (''wav::'' @ k) (clock w0) (model, text, voice) ext1 w0 = (Inr buf1, w1)"
    by (rule synthesizeToWav_success)
  from how have "length (calls w1) \<le> length (calls w0) + 1"
  proof
    assume "w1 = w0 \<and> clock w0 - createdAt h < CACHE_TTL_MS"
    then show ?thesis by simp
  next
    assume "h = WavEntry buf1 (clock w0)
           \<and> fetchWav P (''wav::'' @ k) (clock w0) (model, text, voice) ext1 w0 = (Inr buf1, w1)"
    then have "calls w1 = calls w0 @ [(model, text, voice)]"
      using fetchWav_calls [of P "''wav::'' @ k" "clock w0" "(model, text, voice)" ext1 w0]
      by simp
    then show ?thesis by simp
  qed
  moreover have "synthesizeToWav P text voice model ext2 (w1\<lparr>clock := n2\<rparr>)
                = (Inr buf1, w1\<lparr>clock := n2\<rparr>)"
    if "n2 - createdAt h < CACHE_TTL_MS" for n2 ext2
    using synthesizeToWav_hit [of P "text" voice model k "w1\<lparr>clock := n2\<rparr>" h ext2] k h that
    by simp
  ultimately show ?thesis
    using k h by blast
qed

text \<open>
  C2. Two calls of \<open>synthesizeToWav\<close> for the same text, voice and model, the second
  starting in the world the first left behind, at any time \<open>n2\<close> within the TTL of the
  entry the first call left in the cache: the first call invokes the backend at most
  once, the second does not invoke it at all (it changes nothing in the world), and it
  returns the bytes of the first.
\<close>

theorem synthesizeToWav_repeat:
  assumes "synthesizeToWav P text voice model ext1 w0 = (Inr buf1, w1)"
  shows "length (calls w1) \<le> length (calls w0) + 1
    \<and> (\<exists>k e. makeKey P text voice model = Inr k \<and> audioCache w1 (''wav::'' @ k) = Some e
          \<and> (\<forall>n2 ext2. n2 - createdAt e < CACHE_TTL_MS \<longrightarrow>
                synthesizeToWav P text voice model ext2 (w1\<lparr>clock := n2\<rparr>)
                = (Inr buf1, w1\<lparr>clock := n2\<rparr>)))"
  using assms by (rule synthesizeToWav_again)

theorem synthesizeToWav_repeat_witness:
  "(let w1 = snd (synthesizeToWav stub_platform ''Hello'' (JStr ''Kore'') (JStr ''m1'')
                    stub_outside start_world)
    in fst (synthesizeToWav stub_platform ''Hello'' (JStr ''Kore'') (JStr ''m1'')
              stub_outside start_world) = Inr stub_wav
       \<and> length (calls w1) = 1
       \<and> synthesizeToWav stub_platform ''Hello'' (JStr ''Kore'') (JStr ''m1'') failing_outside
            (w1\<lparr>clock := 65000\<rparr>) = (Inr stub_wav, w1\<lparr>clock := 65000\<rparr>))"
proof -
  let ?w1 = "\<lparr>audioCache = [''wav::m1::Kore::Hello'' \<mapsto> WavEntry stub_wav 0],
             pcmCache = Map.empty, clock = 5000,
             calls = [(JStr ''m1'', ''Hello'', JStr ''Kore'')], files = Map.empty\<rparr>"
  from synthesizeToWav_repeat [OF stub_first_call] obtain k e where
    k: "makeKey stub_platform ''Hello'' (JStr ''Kore'') (JStr ''m1'') = Inr k"
    and e: "audioCache ?w1 (''wav::'' @ k) = Some e"
    and again: "\<And>n2 ext2. n2 - createdAt e < CACHE_TTL_MS \<Longrightarrow>
         synthesizeToWav stub_platform ''Hello'' (JStr ''Kore'') (JStr ''m1'') ext2
           (?w1\<lparr>clock := n2\<rparr>) = (Inr stub_wav, ?w1\<lparr>clock := n2\<rparr>)"
    by blast
  from k have "k = ''m1::Kore::Hello''"
    by (simp add: makeKey_str)
  with e have "createdAt e = 0"
    by auto
  then have "65000 - createdAt e < CACHE_TTL_MS"
    by (simp add: CACHE_TTL_MS_def)
  from again [OF this] show ?thesis
    by (simp add: stub_first_call)
qed

subsection \<open>Expiry\<close>

text \<open>
  C4. A read at a time \<open>now\<close> with \<open>now - createdAt \<ge> 10\<close> minutes treats the entry as
  absent: the call returns what it returns in the world without that entry, and the
  backend is called once more. This holds for both caches.
\<close>

theorem stale_entry_is_absent:
  assumes "makeKey P text voice model = Inr k"
  shows "(\<forall>e. audioCache w (''wav::'' @ k) = Some e \<and> CACHE_TTL_MS \<le> clock w - createdAt e \<longrightarrow>
            fst (synthesizeToWav P text voice model ext w)
            = fst (synthesizeToWav P text voice model ext
                     (w\<lparr>audioCache := (audioCache w)(''wav::'' @ k := None)\<rparr>))
            \<and> calls (snd (synthesizeToWav P text voice model ext w))
              = calls w @ [(model, text, voice)])
    \<and> (\<forall>e. pcmCache w (''pcm::'' @ k) = Some e \<and> CACHE_TTL_MS \<le> clock w - pcm_createdAt e \<longrightarrow>
            fst (synthesizeToPcm P text voice model ext w)
            = fst (synthesizeToPcm P text voice model ext
                     (w\<lparr>pcmCache := (pcmCache w)(''pcm::'' @ k := None)\<rparr>))
            \<and> calls (snd (synthesizeToPcm P text voice model ext w))
              = calls w @ [(model, text, voice)])"
proof (intro conjI allI impI)
  fix e
  assume stale: "audioCache w (''wav::'' @ k) = Some e \<and> CACHE_TTL_MS \<le> clock w - createdAt e"
  let ?w = "w\<lparr>audioCache := (audioCache w)(''wav::'' @ k := None)\<rparr>"
  have a: "synthesizeToWav P text voice model ext w
           = fetchWav P (''wav::'' @ k) (clock w) (model, text, voice) ext w"
    by (rule synthesizeToWav_miss [OF assms]) (use stale in auto)
  have b: "synthesizeToWav P text voice model ext ?w
           = fetchWav P (''wav::'' @ k) (clock w) (model, text, voice) ext ?w"
    using synthesizeToWav_miss [OF assms, of ?w ext] by simp
  show "fst (synthesizeToWav P text voice model ext w)
        = fst (synthesizeToWav P text voice model ext ?w)"
    unfolding a b by (rule fetchWav_result_world)
  show "calls (snd (synthesizeToWav P text voice model ext w)) = calls w @ [(model, text, voice)]"
    unfolding a by (rule fetchWav_calls)
next
  fix e
  assume stale: "pcmCache w (''pcm::'' @ k) = Some e \<and> CACHE_TTL_MS \<le> clock w - pcm_createdAt e"
  let ?w = "w\<lparr>pcmCache := (pcmCache w)(''pcm::'' @ k := None)\<rparr>"
  have a: "synthesizeToPcm P text voice model ext w
           = fetchPcm P (''pcm::'' @ k) (clock w) (model, text, voice) ext w"
    by (rule synthesizeToPcm_miss [OF assms]) (use stale in auto)
  have b: "synthesizeToPcm P text voice model ext ?w
           = fetchPcm P (''pcm::'' @ k) (clock w) (model, text, voice) ext ?w"
    using synthesizeToPcm_miss [OF assms, of ?w ext] by simp
  show "fst (synthesizeToPcm P text voice model ext w)
        = fst (synthesizeToPcm P text voice model ext ?w)"
    unfolding a b by (rule fetchPcm_result_world)
  show "calls (snd (synthesizeToPcm P text voice model ext w)) = calls w @ [(model, text, voice)]"
    unfolding a by (rule fetchPcm_calls)
qed

text \<open>An entry stamped 0 holding other bytes, read at 600000: the backend is called and
  its audio is returned, not the entry's.\<close>

theorem stale_entry_is_absent_witness:
  "(let w = start_world\<lparr>audioCache := [''wav::m1::Kore::Hello'' \<mapsto> WavEntry [1, 2, 3] 0],
                         pcmCache := [''pcm::m1::Kore::Hello'' \<mapsto> PcmEntry [1, 2, 3] 0],
                         clock := 600000\<rparr>
    in synthesizeToWav stub_platform ''Hello'' (JStr ''Kore'') (JStr ''m1'') stub_outside w
         = (Inr stub_wav,
            w\<lparr>audioCache := [''wav::m1::Kore::Hello'' \<mapsto> WavEntry stub_wav 600000],
              clock := 605000, calls := [(JStr ''m1'', ''Hello'', JStr ''Kore'')]\<rparr>)
       \<and> calls (snd (synthesizeToPcm stub_platform ''Hello'' (JStr ''Kore'') (JStr ''m1'')
                        stub_outside w))
         = [(JStr ''m1'', ''Hello'', JStr ''Kore'')])"
proof -
  let ?w = "start_world\<lparr>audioCache := [''wav::m1::Kore::Hello'' \<mapsto> WavEntry [1, 2, 3] 0],
                         pcmCache := [''pcm::m1::Kore::Hello'' \<mapsto> PcmEntry [1, 2, 3] 0],
                         clock := 600000\<rparr>"
  have k: "makeKey stub_platform ''Hello'' (JStr ''Kore'') (JStr ''m1'') = Inr ''m1::Kore::Hello''"
    by (simp add: makeKey_str)
  have wav: "audioCache ?w (''wav::'' @ ''m1::Kore::Hello'') = Some (WavEntry [1, 2, 3] 0)
             \<and> CACHE_TTL_MS \<le> clock ?w - createdAt (WavEntry [1, 2, 3] 0)"
    by (simp add: CACHE_TTL_MS_def)
  have raw: "pcmCache ?w (''pcm::'' @ ''m1::Kore::Hello'') = Some (PcmEntry [1, 2, 3] 0)
             \<and> CACHE_TTL_MS \<le> clock ?w - pcm_createdAt (PcmEntry [1, 2, 3] 0)"
    by (simp add: CACHE_TTL_MS_def)
  from stale_entry_is_absent [OF k, of ?w stub_outside] wav raw
  have "fst (synthesizeToWav stub_platform ''Hello'' (JStr ''Kore'') (JStr ''m1'') stub_outside ?w)
        = fst (synthesizeToWav stub_platform ''Hello'' (JStr ''Kore'') (JStr ''m1'') stub_outside
                 (?w\<lparr>audioCache := (audioCache ?w)(''wav::'' @ ''m1::Kore::Hello'' := None)\<rparr>))"
    and "calls (snd (synthesizeToPcm stub_platform ''Hello'' (JStr ''Kore'') (JStr ''m1'')
                       stub_outside ?w)) = calls ?w @ [(JStr ''m1'', ''Hello'', JStr ''Kore'')]"
    by blast+
  then show ?thesis
    by (simp add: synthesizeToWav_def makeKey_str fetchWav_def invoke_def Let_def start_world_def
        stub_outside_def stub_platform_def CACHE_TTL_MS_def)
qed

subsection \<open>The two kinds of payload\<close>

lemma synthesizeToWav_pcmCache:
  "fst (synthesizeToWav P text voice model ext (w\<lparr>pcmCache := c\<rparr>))
     = fst (synthesizeToWav P text voice model ext w)
   \<and> pcmCache (snd (synthesizeToWav P text voice model ext w)) = pcmCache w"
  by (simp add: synthesizeToWav_def Let_def fetchWav_pcmCache
      fetchWav_result_world [of _ _ _ _ _ "w\<lparr>pcmCache := c\<rparr>" w] split: sum.split)

lemma synthesizeToPcm_audioCache:
  "fst (synthesizeToPcm P text voice model ext (w\<lparr>audioCache := a\<rparr>))
     = fst (synthesizeToPcm P text voice model ext w)
   \<and> audioCache (snd (synthesizeToPcm P text voice model ext w)) = audioCache w"
  by (simp add: synthesizeToPcm_def Let_def fetchPcm_audioCache
      fetchPcm_result_world [of _ _ _ _ _ "w\<lparr>audioCache := a\<rparr>" w] split: sum.split)

text \<open>
  C5. Whatever buffer \<open>synthesizeToWav\<close> returns is the \<open>wavBuf\<close> of the entry under the
  \<open>wav::\<close>-prefixed key of the request in \<open>audioCache\<close>, and when the backend was not called
  that entry was there before the call; likewise \<open>synthesizeToPcm\<close> with the
  \<open>pcm::\<close>-prefixed key in \<open>pcmCache\<close>. Neither function reads or writes the other
  kind's cache: its result is the same whatever that cache holds, and it leaves that
  cache as it was.
\<close>

theorem kind_isolation:
  "(\<forall>buf w'. synthesizeToWav P text voice model ext w = (Inr buf, w') \<longrightarrow>
      (\<exists>k e. makeKey P text voice model = Inr k \<and> audioCache w' (''wav::'' @ k) = Some e
             \<and> wavBuf e = buf
             \<and> (calls w' = calls w \<longrightarrow> audioCache w (''wav::'' @ k) = Some e)))
   \<and> (\<forall>buf w'. synthesizeToPcm P text voice model ext w = (Inr buf, w') \<longrightarrow>
      (\<exists>k e. makeKey P text voice model = Inr k \<and> pcmCache w' (''pcm::'' @ k) = Some e
             \<and> pcm e = buf
             \<and> (calls w' = calls w \<longrightarrow> pcmCache w (''pcm::'' @ k) = Some e)))
   \<and> (\<forall>c. fst (synthesizeToWav P text voice model ext (w\<lparr>pcmCache := c\<rparr>))
            = fst (synthesizeToWav P text voice model ext w))
   \<and> (\<forall>a. fst (synthesizeToPcm P text voice model ext (w\<lparr>audioCache := a\<rparr>))
            = fst (synthesizeToPcm P text voice model ext w))
   \<and> pcmCache (snd (synthesizeToWav P text voice model ext w)) = pcmCache w
   \<and> audioCache (snd (synthesizeToPcm P text voice model ext w)) = audioCache w"
proof -
  have wav: "\<exists>k e. makeKey P text voice model = Inr k \<and> audioCache w' (''wav::'' @ k) = Some e
             \<and> wavBuf e = buf
             \<and> (calls w' = calls w \<longrightarrow> audioCache w (''wav::'' @ k) = Some e)"
    if ok: "synthesizeToWav P text voice model ext w = (Inr buf, w')" for buf w'
  proof -
    from ok obtain k h where k: "makeKey P text voice model = Inr k"
      and h: "audioCache w' (''wav::'' @ k) = Some h" "wavBuf h = buf"
      and how: "w' = w \<and> clock w - createdAt h < CACHE_TTL_MS
         \<or> h = WavEntry buf (clock w)
           \<and> fetchWav P (''wav::'' @ k) (clock w) (model, text, voice) ext w = (Inr buf, w')"
      by (rule synthesizeToWav_success)
    have "audioCache w (''wav::'' @ k) = Some h" if same: "calls w' = calls w"
      using how
    proof
      assume "w' = w \<and> clock w - createdAt h < CACHE_TTL_MS"
      with h show ?thesis by simp
    next
      assume "h = WavEntry buf (clock w)
           \<and> fetchWav P (''wav::'' @ k) (clock w) (model, text, voice) ext w = (Inr buf, w')"
      then have "calls w' = calls w @ [(model, text, voice)]"
        using fetchWav_calls [of P "''wav::'' @ k" "clock w" "(model, text, voice)" ext w]
        by simp
      with same show ?thesis by simp
    qed
    with k h show ?thesis by blast
  qed
  have raw: "\<exists>k e. makeKey P text voice model = Inr k \<and> pcmCache w' (''pcm::'' @ k) = Some e
             \<and> pcm e = buf
             \<and> (calls w' = calls w \<longrightarrow> pcmCache w (''pcm::'' @ k) = Some e)"
    if ok: "synthesizeToPcm P text voice model ext w = (Inr buf, w')" for buf w'
  proof -
    from ok obtain k h where k: "makeKey P text voice model = Inr k"
      and h: "pcmCache w' (''pcm::'' @ k) = Some h" "pcm h = buf"
      and how: "w' = w \<and> clock w - pcm_createdAt h < CACHE_TTL_MS
         \<or> h = PcmEntry buf (clock w)
           \<and> fetchPcm P (''pcm::'' @ k) (clock w) (model, text, voice) ext w = (Inr buf, w')"
      by (rule synthesizeToPcm_success)
    have "pcmCache w (''pcm::'' @ k) = Some h" if same: "calls w' = calls w"
      using how
    proof
      assume "w' = w \<and> clock w - pcm_createdAt h < CACHE_TTL_MS"
      with h show ?thesis by simp
    next
      assume "h = PcmEntry buf (clock w)
           \<and> fetchPcm P (''pcm::'' @ k) (clock w) (model, text, voice) ext w = (Inr buf, w')"
      then have "calls w' = calls w @ [(model, text, voice)]"
        using fetchPcm_calls [of P "''pcm::'' @ k" "clock w" "(model, text, voice)" ext w]
        by simp
      with same show ?thesis by simp
    qed
    with k h show ?thesis by blast
  qed
  from wav raw show ?thesis
    using synthesizeToWav_pcmCache [where w = w and ext = ext and P = P]
      synthesizeToPcm_audioCache [where w = w and ext = ext and P = P]
    by blast
qed

text \<open>Both caches hold an entry for the same request; each path returns its own.\<close>

theorem kind_isolation_witness:
  "(let w = start_world\<lparr>audioCache := [''wav::m1::Kore::Hello'' \<mapsto> WavEntry stub_wav 0],
                         pcmCache := [''pcm::m1::Kore::Hello'' \<mapsto> PcmEntry [0, 0, 0, 0] 0],
                         clock := 1000\<rparr>
    in synthesizeToWav stub_platform ''Hello'' (JStr ''Kore'') (JStr ''m1'') failing_outside w
         = (Inr stub_wav, w)
       \<and> synthesizeToPcm stub_platform ''Hello'' (JStr ''Kore'') (JStr ''m1'') failing_outside w
         = (Inr [0, 0, 0, 0], w)
       \<and> (\<exists>k e. audioCache w (''wav::'' @ k) = Some e \<and> wavBuf e = stub_wav)
       \<and> (\<exists>k e. pcmCache w (''pcm::'' @ k) = Some e \<and> pcm e = [0, 0, 0, 0]))"
proof -
  let ?w = "start_world\<lparr>audioCache := [''wav::m1::Kore::Hello'' \<mapsto> WavEntry stub_wav 0],
                         pcmCache := [''pcm::m1::Kore::Hello'' \<mapsto> PcmEntry [0, 0, 0, 0] 0],
                         clock := 1000\<rparr>"
  have wav: "synthesizeToWav stub_platform ''Hello'' (JStr ''Kore'') (JStr ''m1'') failing_outside ?w
             = (Inr stub_wav, ?w)"
    by (simp add: synthesizeToWav_def makeKey_str Let_def start_world_def CACHE_TTL_MS_def)
  have raw: "synthesizeToPcm stub_platform ''Hello'' (JStr ''Kore'') (JStr ''m1'') failing_outside ?w
             = (Inr [0, 0, 0, 0], ?w)"
    by (simp add: synthesizeToPcm_def makeKey_str Let_def start_world_def CACHE_TTL_MS_def)
  from kind_isolation [of stub_platform "''Hello''" "JStr ''Kore''" "JStr ''m1''" failing_outside ?w]
    wav raw
  have "\<exists>k e. audioCache ?w (''wav::'' @ k) = Some e \<and> wavBuf e = stub_wav"
    and "\<exists>k e. pcmCache ?w (''pcm::'' @ k) = Some e \<and> pcm e = [0, 0, 0, 0]"
    by blast+
  with wav raw show ?thesis
    unfolding Let_def by blast
qed

subsection \<open>The stamp of an entry\<close>

text \<open>
  C6, as amended. Every insertion into a cache stamps the entry with the time the
  function read when it was called, before the backend was invoked; the insertion itself
  happens when the backend has answered, \<open>elapsed\<close> milliseconds later. So an entry made
  by a call that started at time \<open>T\<close> is served as a hit at every time \<open>n2\<close> with
  \<open>n2 - T\<close> below ten minutes, and a read at a time \<open>n2\<close> with \<open>n2 - T\<close> of ten minutes or
  more calls the backend again.
\<close>

theorem entry_stamped_at_call_start:
  "(synthesizeToWav P text voice model ext w = (Inr buf, w') \<and> calls w' \<noteq> calls w \<longrightarrow>
      (\<exists>k. makeKey P text voice model = Inr k
         \<and> audioCache w' (''wav::'' @ k) = Some (WavEntry buf (clock w))
         \<and> clock w' = clock w + int (elapsed (gen ext))
         \<and> (\<forall>n2 ext2. n2 - clock w < CACHE_TTL_MS \<longrightarrow>
               synthesizeToWav P text voice model ext2 (w'\<lparr>clock := n2\<rparr>)
               = (Inr buf, w'\<lparr>clock := n2\<rparr>))
         \<and> (\<forall>n2 ext2. CACHE_TTL_MS \<le> n2 - clock w \<longrightarrow>
               calls (snd (synthesizeToWav P text voice model ext2 (w'\<lparr>clock := n2\<rparr>)))
               = calls w' @ [(model, text, voice)])))
   \<and> (synthesizeToPcm P text voice model ext w = (Inr buf, w') \<and> calls w' \<noteq> calls w \<longrightarrow>
      (\<exists>k. makeKey P text voice model = Inr k
         \<and> pcmCache w' (''pcm::'' @ k) = Some (PcmEntry buf (clock w))
         \<and> clock w' = clock w + int (elapsed (gen ext))
         \<and> (\<forall>n2 ext2. n2 - clock w < CACHE_TTL_MS \<longrightarrow>
               synthesizeToPcm P text voice model ext2 (w'\<lparr>clock := n2\<rparr>)
               = (Inr buf, w'\<lparr>clock := n2\<rparr>))
         \<and> (\<forall>n2 ext2. CACHE_TTL_MS \<le> n2 - clock w \<longrightarrow>
               calls (snd (synthesizeToPcm P text voice model ext2 (w'\<lparr>clock := n2\<rparr>)))
               = calls w' @ [(model, text, voice)])))"
proof (intro conjI impI)
  assume a: "synthesizeToWav P text voice model ext w = (Inr buf, w') \<and> calls w' \<noteq> calls w"
  then obtain k h where k: "makeKey P text voice model = Inr k"
    and h: "audioCache w' (''wav::'' @ k) = Some h"
    and how: "w' = w \<and> clock w - createdAt h < CACHE_TTL_MS
         \<or> h = WavEntry buf (clock w)
           \<and> fetchWav P (''wav::'' @ k) (clock w) (model, text, voice) ext w = (Inr buf, w')"
    using synthesizeToWav_success [of P "text" voice model ext w buf w'] by blast
  from how a have h_eq: "h = WavEntry buf (clock w)"
    and f: "fetchWav P (''wav::'' @ k) (clock w) (model, text, voice) ext w = (Inr buf, w')"
    by auto
  have c: "clock w' = clock w + int (elapsed (gen ext))"
    using fetchWav_clock [of P "''wav::'' @ k" "clock w" "(model, text, voice)" ext w] f by simp
  have hit: "synthesizeToWav P text voice model ext2 (w'\<lparr>clock := n2\<rparr>)
             = (Inr buf, w'\<lparr>clock := n2\<rparr>)"
    if "n2 - clock w < CACHE_TTL_MS" for n2 ext2
    using synthesizeToWav_hit [OF k, of "w'\<lparr>clock := n2\<rparr>" h ext2] h h_eq that by simp
  have miss: "calls (snd (synthesizeToWav P text voice model ext2 (w'\<lparr>clock := n2\<rparr>)))
              = calls w' @ [(model, text, voice)]"
    if "CACHE_TTL_MS \<le> n2 - clock w" for n2 ext2
  proof -
    have "synthesizeToWav P text voice model ext2 (w'\<lparr>clock := n2\<rparr>)
          = fetchWav P (''wav::'' @ k) (clock (w'\<lparr>clock := n2\<rparr>)) (model, text, voice) ext2
              (w'\<lparr>clock := n2\<rparr>)"
      by (rule synthesizeToWav_miss [OF k]) (use h h_eq that in auto)
    then show ?thesis
      by (simp add: fetchWav_calls)
  qed
  from k h h_eq c hit miss
  show "\<exists>k. makeKey P text voice model = Inr k
         \<and> audioCache w' (''wav::'' @ k) = Some (WavEntry buf (clock w))
         \<and> clock w' = clock w + int (elapsed (gen ext))
         \<and> (\<forall>n2 ext2. n2 - clock w < CACHE_TTL_MS \<longrightarrow>
               synthesizeToWav P text voice model ext2 (w'\<lparr>clock := n2\<rparr>)
               = (Inr buf, w'\<lparr>clock := n2\<rparr>))
         \<and> (\<forall>n2 ext2. CACHE_TTL_MS \<le> n2 - clock w \<longrightarrow>
               calls (snd (synthesizeToWav P text voice model ext2 (w'\<lparr>clock := n2\<rparr>)))
               = calls w' @ [(model, text, voice)])"
    by blast
next
  assume a: "synthesizeToPcm P text voice model ext w = (Inr buf, w') \<and> calls w' \<noteq> calls w"
  then obtain k h where k: "makeKey P text voice model = Inr k"
    and h: "pcmCache w' (''pcm::'' @ k) = Some h"
    and how: "w' = w \<and> clock w - pcm_createdAt h < CACHE_TTL_MS
         \<or> h = PcmEntry buf (clock w)
           \<and> fetchPcm P (''pcm::'' @ k) (clock w) (model, text, voice) ext w = (Inr buf, w')"
    using synthesizeToPcm_success [of P "text" voice model ext w buf w'] by blast
  from how a have h_eq: "h = PcmEntry buf (clock w)"
    and f: "fetchPcm P (''pcm::'' @ k) (clock w) (model, text, voice) ext w = (Inr buf, w')"
    by auto
  have c: "clock w' = clock w + int (elapsed (gen ext))"
    using fetchPcm_clock [of P "''pcm::'' @ k" "clock w" "(model, text, voice)" ext w] f by simp
  have hit: "synthesizeToPcm P text voice model ext2 (w'\<lparr>clock := n2\<rparr>)
             = (Inr buf, w'\<lparr>clock := n2\<rparr>)"
    if "n2 - clock w < CACHE_TTL_MS" for n2 ext2
    using synthesizeToPcm_hit [OF k, of "w'\<lparr>clock := n2\<rparr>" h ext2] h h_eq that by simp
  have miss: "calls (snd (synthesizeToPcm P text voice model ext2 (w'\<lparr>clock := n2\<rparr>)))
              = calls w' @ [(model, text, voice)]"
    if "CACHE_TTL_MS \<le> n2 - clock w" for n2 ext2
  proof -
    have "synthesizeToPcm P text voice model ext2 (w'\<lparr>clock := n2\<rparr>)
          = fetchPcm P (''pcm::'' @ k) (clock (w'\<lparr>clock := n2\<rparr>)) (model, text, voice) ext2
              (w'\<lparr>clock := n2\<rparr>)"
      by (rule synthesizeToPcm_miss [OF k]) (use h h_eq that in auto)
    then show ?thesis
      by (simp add: fetchPcm_calls)
  qed
  from k h h_eq c hit miss
  show "\<exists>k. makeKey P text voice model = Inr k
         \<and> pcmCache w' (''pcm::'' @ k) = Some (PcmEntry buf (clock w))
         \<and> clock w' = clock w + int (elapsed (gen ext))
         \<and> (\<forall>n2 ext2. n2 - clock w < CACHE_TTL_MS \<longrightarrow>
               synthesizeToPcm P text voice model ext2 (w'\<lparr>clock := n2\<rparr>)
               = (Inr buf, w'\<lparr>clock := n2\<rparr>))
         \<and> (\<forall>n2 ext2. CACHE_TTL_MS \<le> n2 - clock w \<longrightarrow>
               calls (snd (synthesizeToPcm P text voice model ext2 (w'\<lparr>clock := n2\<rparr>)))
               = calls w' @ [(model, text, voice)])"
    by blast
qed

text \<open>The stub backend takes five seconds: the entry it causes is stamped 0, is served
  at 599999 and is expired at 600000.\<close>

theorem entry_stamped_at_call_start_witness:
  "(let w1 = snd (synthesizeToWav stub_platform ''Hello'' (JStr ''Kore'') (JStr ''m1'')
                    stub_outside start_world)
    in synthesizeToWav stub_platform ''Hello'' (JStr ''Kore'') (JStr ''m1'') failing_outside
         (w1\<lparr>clock := 599999\<rparr>) = (Inr stub_wav, w1\<lparr>clock := 599999\<rparr>)
       \<and> calls (snd (synthesizeToWav stub_platform ''Hello'' (JStr ''Kore'') (JStr ''m1'')
                        failing_outside (w1\<lparr>clock := 600000\<rparr>)))
         = [(JStr ''m1'', ''Hello'', JStr ''Kore''), (JStr ''m1'', ''Hello'', JStr ''Kore'')])"
proof -
  let ?w1 = "\<lparr>audioCache = [''wav::m1::Kore::Hello'' \<mapsto> WavEntry stub_wav 0],
             pcmCache = Map.empty, clock = 5000,
             calls = [(JStr ''m1'', ''Hello'', JStr ''Kore'')], files = Map.empty\<rparr>"
  have "calls ?w1 \<noteq> calls start_world"
    by (simp add: start_world_def)
  with stub_first_call
    entry_stamped_at_call_start [of stub_platform "''Hello''" "JStr ''Kore''" "JStr ''m1''"
      stub_outside start_world stub_wav ?w1]
  obtain k where
    hit: "\<And>n2 ext2. n2 - clock start_world < CACHE_TTL_MS \<Longrightarrow>
            synthesizeToWav stub_platform ''Hello'' (JStr ''Kore'') (JStr ''m1'') ext2
              (?w1\<lparr>clock := n2\<rparr>) = (Inr stub_wav, ?w1\<lparr>clock := n2\<rparr>)"
    and miss: "\<And>n2 ext2. CACHE_TTL_MS \<le> n2 - clock start_world \<Longrightarrow>
            calls (snd (synthesizeToWav stub_platform ''Hello'' (JStr ''Kore'') (JStr ''m1'') ext2
              (?w1\<lparr>clock := n2\<rparr>))) = calls ?w1 @ [(JStr ''m1'', ''Hello'', JStr ''Kore'')]"
    by blast
  have "599999 - clock start_world < CACHE_TTL_MS" "CACHE_TTL_MS \<le> 600000 - clock start_world"
    by (simp_all add: start_world_def CACHE_TTL_MS_def)
  from hit [OF this(1), of failing_outside] miss [OF this(2), of failing_outside]
  show ?thesis
    by (simp add: stub_first_call)
qed

text \<open>
  C6 as stated fails. The call starts at time 0 and the backend answers at 5000, when
  the entry is inserted; the entry is stamped 0, not 5000, and a read at 602000, less
  than ten minutes after the insertion, is a miss: the backend is called a second time.
\<close>

theorem entry_not_stamped_at_insertion:
  "clock (snd (synthesizeToWav stub_platform ''Hello'' (JStr ''Kore'') (JStr ''m1'')
                 stub_outside start_world)) = 5000
   \<and> audioCache (snd (synthesizeToWav stub_platform ''Hello'' (JStr ''Kore'') (JStr ''m1'')
                        stub_outside start_world)) ''wav::m1::Kore::Hello''
     = Some (WavEntry stub_wav 0)
   \<and> 602000 - 5000 < CACHE_TTL_MS
   \<and> calls (snd (synthesizeToWav stub_platform ''Hello'' (JStr ''Kore'') (JStr ''m1'') stub_outside
        (snd (synthesizeToWav stub_platform ''Hello'' (JStr ''Kore'') (JStr ''m1'')
                stub_outside start_world)\<lparr>clock := 602000\<rparr>)))
     = [(JStr ''m1'', ''Hello'', JStr ''Kore''), (JStr ''m1'', ''Hello'', JStr ''Kore'')]"
proof -
  let ?w1 = "\<lparr>audioCache = [''wav::m1::Kore::Hello'' \<mapsto> WavEntry stub_wav 0],
             pcmCache = Map.empty, clock = 5000,
             calls = [(JStr ''m1'', ''Hello'', JStr ''Kore'')], files = Map.empty\<rparr>"
  have "calls (snd (synthesizeToWav stub_platform ''Hello'' (JStr ''Kore'') (JStr ''m1'')
                      stub_outside (?w1\<lparr>clock := 602000\<rparr>)))
        = [(JStr ''m1'', ''Hello'', JStr ''Kore''), (JStr ''m1'', ''Hello'', JStr ''Kore'')]"
    by (simp add: synthesizeToWav_def makeKey_str fetchWav_def invoke_def Let_def
        stub_outside_def stub_platform_def CACHE_TTL_MS_def)
  then show ?thesis
    unfolding stub_first_call by (simp add: CACHE_TTL_MS_def)
qed

section \<open>The routes\<close>

subsection \<open>Blank text\<close>

lemma dropWhite_WHITE_SPACE:
  "\<forall>n \<in> set WHITE_SPACE.
     dropWhite white1 white2 white3 (utf8_enc n @ s) = dropWhite white1 white2 white3 s"
  unfolding WHITE_SPACE_def list.set ball_simps
  by (simp add: utf8_enc_def white1_def white2_def white3_def Let_def)

lemma dropWhite_utf8_string:
  assumes "set cps \<subseteq> set WHITE_SPACE"
  shows "dropWhite white1 white2 white3 (utf8_string cps) = []"
  using assms
proof (induction cps)
  case Nil
  then show ?case by (simp add: utf8_string_def)
next
  case (Cons n cps)
  then have "dropWhite white1 white2 white3 (utf8_string cps) = []"
    by simp
  moreover have "utf8_string (n # cps) = utf8_enc n @ utf8_string cps"
    by (simp add: utf8_string_def)
  moreover have "n \<in> set WHITE_SPACE"
    using Cons.prems by simp
  ultimately show ?case
    using dropWhite_WHITE_SPACE [of "utf8_string cps"] by simp
qed

lemma trim_blank:
  assumes "set cps \<subseteq> set WHITE_SPACE"
  shows "trim (utf8_string cps) = []"
  using assms by (simp add: trim_def dropWhite_utf8_string)

lemma trim_nonempty: "trim s \<noteq> [] \<Longrightarrow> s \<noteq> []"
  by (auto simp: trim_def)

lemma trim_Hello: "trim ''Hello'' = ''Hello''" "trim '' Hello '' = ''Hello''"
  by (simp_all add: trim_def white1_def white2_def white3_def)

text \<open>
  C7. A \<open>/tts\<close> request whose \<open>text\<close> is absent, the empty string or a string of white
  space only (any sequence of the white space and line terminator characters of the
  language, U+3000 and U+FEFF among them) is answered with status 400 and the message of
  the missing text; the world is left as it was, so the backend has not been called.
\<close>

theorem tts_blank_text:
  assumes "body_text body = None
           \<or> (\<exists>cps. body_text body = Some (JStr (utf8_string cps))
                    \<and> set cps \<subseteq> set WHITE_SPACE)"
  shows "tts C P body ext w = (MISSING_TEXT, w) \<and> status MISSING_TEXT = 400
         \<and> calls (snd (tts C P body ext w)) = calls w"
proof -
  have "\<exists>t. js_toString P (or_else (body_text body) (JStr [])) = Inr t \<and> trim t = []"
    using assms
  proof
    assume "body_text body = None"
    then show ?thesis
      by (simp add: or_else_def js_toString_def trim_def)
  next
    assume "\<exists>cps. body_text body = Some (JStr (utf8_string cps)) \<and> set cps \<subseteq> set WHITE_SPACE"
    then obtain cps where s: "body_text body = Some (JStr (utf8_string cps))"
      "set cps \<subseteq> set WHITE_SPACE"
      by blast
    then have "trim (utf8_string cps) = []"
      by (simp add: trim_blank)
    moreover have "trim [] = []"
      by (simp add: trim_def)
    ultimately show ?thesis
      using s by (cases "utf8_string cps = []") (simp_all add: or_else_def js_toString_def)
  qed
  then have "tts C P body ext w = (MISSING_TEXT, w)"
    by (auto simp: tts_def)
  then show ?thesis
    by (simp add: MISSING_TEXT_def)
qed

text \<open>An ideographic space, a space, a byte order mark and a line separator; the empty
  string; no text at all.\<close>

theorem tts_blank_text_witness:
  "tts stub_config stub_platform (stub_body (utf8_string [0x3000, 0x20, 0xFEFF, 0x2028]))
     stub_outside start_world = (MISSING_TEXT, start_world)
   \<and> tts stub_config stub_platform (stub_body (utf8_string [])) stub_outside start_world
     = (MISSING_TEXT, start_world)
   \<and> tts stub_config stub_platform ((stub_body ''x'')\<lparr>body_text := None\<rparr>) stub_outside start_world
     = (MISSING_TEXT, start_world)"
proof -
  let ?white = "stub_body (utf8_string [0x3000, 0x20, 0xFEFF, 0x2028])"
  let ?empty = "stub_body (utf8_string [])"
  let ?absent = "(stub_body ''x'')\<lparr>body_text := None\<rparr>"
  have "set [0x3000, 0x20, 0xFEFF, 0x2028] \<subseteq> set WHITE_SPACE"
    by (simp add: WHITE_SPACE_def)
  then have a: "body_text ?white = None
           \<or> (\<exists>cps. body_text ?white = Some (JStr (utf8_string cps))
                    \<and> set cps \<subseteq> set WHITE_SPACE)"
    unfolding stub_body_def by auto
  have b: "body_text ?empty = None
           \<or> (\<exists>cps. body_text ?empty = Some (JStr (utf8_string cps))
                    \<and> set cps \<subseteq> set WHITE_SPACE)"
    unfolding stub_body_def by auto
  have c: "body_text ?absent = None
           \<or> (\<exists>cps. body_text ?absent = Some (JStr (utf8_string cps))
                    \<and> set cps \<subseteq> set WHITE_SPACE)"
    by simp
  from tts_blank_text [OF a] tts_blank_text [OF b] tts_blank_text [OF c] show ?thesis
    by blast
qed

subsection \<open>The fingerprint of a request\<close>

lemma makeKey_Inr:
  "makeKey P text voice model = Inr k \<longleftrightarrow>
     (\<exists>m v. js_toString P model = Inr m \<and> js_toString P voice = Inr v
            \<and> k = m @ ''::'' @ v @ ''::'' @ text)"
  by (auto simp: makeKey_def and_then_def split: sum.splits)






lemma fetchWav_Inl:
  "fetchWav P key now rq ext w = (Inl e, w') \<Longrightarrow> w' = invoke rq ext w"
  by (auto simp: fetchWav_def Let_def split: gen_reply.splits option.splits sum.splits if_splits)






subsection \<open>The webhook\<close>

lemma vapi_voice_request_status:
  "status (fst (vapi_voice_request C P msg ext w)) = 200
   \<or> status (fst (vapi_voice_request C P msg ext w)) = 400
   \<or> status (fst (vapi_voice_request C P msg ext w)) = 500"
  by (auto simp: vapi_voice_request_def INVALID_PAYLOAD_def tts_failed_def Let_def
      split: option.splits sum.splits prod.splits if_splits)

text \<open>
  C9. A secret is configured when \<open>VAPI_TTS_SECRET\<close> is set to a non-empty string. With
  a secret configured, a request whose \<open>x-vapi-signature\<close> header is absent or differs
  from it is answered 401 and nothing else happens: the world is unchanged. With no
  secret configured (the variable unset, or set to the empty string) the header is not
  looked at: the handler goes on with the payload, whatever the header, and never
  answers 401.
\<close>

theorem vapi_tts_auth:
  "(\<forall>s. VAPI_TTS_SECRET C = Some s \<and> s \<noteq> [] \<and> x_vapi_signature req \<noteq> Some s \<longrightarrow>
      vapi_tts C P req msg ext w = (UNAUTHORIZED, w))
   \<and> status UNAUTHORIZED = 401
   \<and> (VAPI_TTS_SECRET C = None \<or> VAPI_TTS_SECRET C = Some [] \<longrightarrow>
        vapi_tts C P req msg ext w = vapi_voice_request C P msg ext w
        \<and> status (fst (vapi_tts C P req msg ext w)) \<noteq> 401)"
proof (intro conjI allI impI)
  fix s
  assume "VAPI_TTS_SECRET C = Some s \<and> s \<noteq> [] \<and> x_vapi_signature req \<noteq> Some s"
  then show "vapi_tts C P req msg ext w = (UNAUTHORIZED, w)"
    by (simp add: vapi_tts_def)
next
  show "status UNAUTHORIZED = 401"
    by (simp add: UNAUTHORIZED_def)
next
  assume "VAPI_TTS_SECRET C = None \<or> VAPI_TTS_SECRET C = Some []"
  then show "vapi_tts C P req msg ext w = vapi_voice_request C P msg ext w"
    by (auto simp: vapi_tts_def)
  then show "status (fst (vapi_tts C P req msg ext w)) \<noteq> 401"
    using vapi_voice_request_status [of C P msg ext w] by auto
qed

lemma stub_voice_request:
  "vapi_voice_request stub_config stub_platform (Some (stub_message None)) stub_outside start_world
   = (Send 200 [(''Content-Type'', ''application/octet-stream'')] [0, 0, 0, 0],
      \<lparr>audioCache = Map.empty,
       pcmCache = [''pcm::gemini-2.5-flash-preview-tts::Kore::Hello'' \<mapsto> PcmEntry [0, 0, 0, 0] 0],
       clock = 5000,
       calls = [(JStr ''gemini-2.5-flash-preview-tts'', ''Hello'', JStr ''Kore'')],
       files = Map.empty\<rparr>)"
proof -
  have "trim ''Hello'' \<noteq> []"
    by (simp add: trim_Hello)
  then show ?thesis
    by (simp add: vapi_voice_request_def stub_message_def or_else_def js_toString_def
        js_Number_def stub_config_def synthesizeToPcm_def makeKey_str fetchPcm_def invoke_def
        Let_def start_world_def stub_outside_def stub_platform_def)
qed

text \<open>Secret "abc" and header "xyz": 401. No secret and header "xyz": the audio.\<close>

theorem vapi_tts_auth_witness:
  "vapi_tts (stub_config\<lparr>VAPI_TTS_SECRET := Some ''abc''\<rparr>) stub_platform
     (stub_request\<lparr>x_vapi_signature := Some ''xyz''\<rparr>) (Some (stub_message None))
     stub_outside start_world = (UNAUTHORIZED, start_world)
   \<and> fst (vapi_tts stub_config stub_platform (stub_request\<lparr>x_vapi_signature := Some ''xyz''\<rparr>)
            (Some (stub_message None)) stub_outside start_world)
     = Send 200 [(''Content-Type'', ''application/octet-stream'')] [0, 0, 0, 0]"
proof -
  have a: "VAPI_TTS_SECRET (stub_config\<lparr>VAPI_TTS_SECRET := Some ''abc''\<rparr>) = Some ''abc''
           \<and> ''abc'' \<noteq> []
           \<and> x_vapi_signature (stub_request\<lparr>x_vapi_signature := Some ''xyz''\<rparr>) \<noteq> Some ''abc''"
    by simp
  have b: "VAPI_TTS_SECRET stub_config = None \<or> VAPI_TTS_SECRET stub_config = Some []"
    by (simp add: stub_config_def)
  from a vapi_tts_auth [of "stub_config\<lparr>VAPI_TTS_SECRET := Some ''abc''\<rparr>"
      "stub_request\<lparr>x_vapi_signature := Some ''xyz''\<rparr>" stub_platform
      "Some (stub_message None)" stub_outside start_world]
  have "vapi_tts (stub_config\<lparr>VAPI_TTS_SECRET := Some ''abc''\<rparr>) stub_platform
     (stub_request\<lparr>x_vapi_signature := Some ''xyz''\<rparr>) (Some (stub_message None))
     stub_outside start_world = (UNAUTHORIZED, start_world)"
    by blast
  moreover from b vapi_tts_auth [of stub_config "stub_request\<lparr>x_vapi_signature := Some ''xyz''\<rparr>"
      stub_platform "Some (stub_message None)" stub_outside start_world]
  have "vapi_tts stub_config stub_platform (stub_request\<lparr>x_vapi_signature := Some ''xyz''\<rparr>)
            (Some (stub_message None)) stub_outside start_world
        = vapi_voice_request stub_config stub_platform (Some (stub_message None)) stub_outside
            start_world"
    by blast
  ultimately show ?thesis
    by (simp add: stub_voice_request)
qed

text \<open>
  C10. A \<open>voice-request\<close> with a non-blank text that passes the check of the secret and
  has no \<open>sampleRate\<close>, or has the string "24000" as its \<open>sampleRate\<close>, is synthesized:
  the handler answers what \<open>synthesizeToPcm\<close> gives for the text and the default voice
  and model, that is the raw PCM with status 200 or, when the synthesis fails, status
  500; it is not rejected with 400.
\<close>

theorem vapi_tts_default_sample_rate:
  assumes "VAPI_TTS_SECRET C = None \<or> VAPI_TTS_SECRET C = Some []
           \<or> x_vapi_signature req = VAPI_TTS_SECRET C"
    and "msg = Some m"
    and "msg_type m = Some (JStr ''voice-request'')"
    and "msg_text m = Some (JStr s)"
    and "trim s \<noteq> []"
    and "msg_sampleRate m = None \<or> msg_sampleRate m = Some (JStr ''24000'')"
  shows "vapi_tts C P req msg ext w =
           (case synthesizeToPcm P s (JStr (DEFAULT_VOICE C)) (JStr (DEFAULT_MODEL C)) ext w of
              (Inl err, w') \<Rightarrow> (tts_failed err, w')
            | (Inr pcm', w') \<Rightarrow>
                (Send 200 [(''Content-Type'', ''application/octet-stream'')] pcm', w'))
         \<and> status (fst (vapi_tts C P req msg ext w)) \<noteq> 400"
proof -
  have auth: "vapi_tts C P req msg ext w = vapi_voice_request C P msg ext w"
    using assms(1) by (auto simp: vapi_tts_def split: option.splits)
  from assms(5) have "s \<noteq> []"
    by (auto simp: trim_def)
  with assms(4) have str: "js_toString P (or_else (msg_text m) (JStr [])) = Inr s"
    by (simp add: or_else_def js_toString_def)
  have "digits_value ''24000'' = 24000" "list_all isDigit ''24000''"
    by (simp_all add: digits_value_def isDigit_def)
  then have "digits_value ''24000'' < 9007199254740992"
    by simp
  with \<open>digits_value ''24000'' = 24000\<close> \<open>list_all isDigit ''24000''\<close> assms(6)
  have rate: "js_Number P (or_else (msg_sampleRate m) (JNum 24000)) = Inr (Some 24000)"
    by (auto simp: or_else_def js_Number_def)
  have eq: "vapi_tts C P req msg ext w =
           (case synthesizeToPcm P s (JStr (DEFAULT_VOICE C)) (JStr (DEFAULT_MODEL C)) ext w of
              (Inl err, w') \<Rightarrow> (tts_failed err, w')
            | (Inr pcm', w') \<Rightarrow>
                (Send 200 [(''Content-Type'', ''application/octet-stream'')] pcm', w'))"
    unfolding auth using assms(2,3,5) str rate by (simp add: vapi_voice_request_def Let_def)
  moreover have "status (fst (vapi_tts C P req msg ext w)) \<noteq> 400"
    unfolding eq by (simp add: tts_failed_def split: prod.split sum.split)
  ultimately show ?thesis
    by blast
qed

theorem vapi_tts_default_sample_rate_witness:
  "fst (vapi_tts stub_config stub_platform stub_request (Some (stub_message None))
          stub_outside start_world)
     = Send 200 [(''Content-Type'', ''application/octet-stream'')] [0, 0, 0, 0]
   \<and> fst (vapi_tts stub_config stub_platform stub_request
            (Some (stub_message (Some (JStr ''24000'')))) stub_outside start_world)
     = Send 200 [(''Content-Type'', ''application/octet-stream'')] [0, 0, 0, 0]"
proof -
  have auth: "VAPI_TTS_SECRET stub_config = None \<or> VAPI_TTS_SECRET stub_config = Some []
              \<or> x_vapi_signature stub_request = VAPI_TTS_SECRET stub_config"
    by (simp add: stub_config_def)
  have nb: "trim ''Hello'' \<noteq> []"
    by (simp add: trim_Hello)
  have m: "msg_type (stub_message r) = Some (JStr ''voice-request'')"
    "msg_text (stub_message r) = Some (JStr ''Hello'')" for r
    by (simp_all add: stub_message_def)
  have r1: "msg_sampleRate (stub_message None) = None
            \<or> msg_sampleRate (stub_message None) = Some (JStr ''24000'')"
    and r2: "msg_sampleRate (stub_message (Some (JStr ''24000''))) = None
            \<or> msg_sampleRate (stub_message (Some (JStr ''24000''))) = Some (JStr ''24000'')"
    by (simp_all add: stub_message_def)
  have synth: "synthesizeToPcm stub_platform ''Hello'' (JStr (DEFAULT_VOICE stub_config))
                 (JStr (DEFAULT_MODEL stub_config)) stub_outside start_world
               = (Inr [0, 0, 0, 0],
                  \<lparr>audioCache = Map.empty,
                   pcmCache = [''pcm::gemini-2.5-flash-preview-tts::Kore::Hello''
                                 \<mapsto> PcmEntry [0, 0, 0, 0] 0],
                   clock = 5000,
                   calls = [(JStr ''gemini-2.5-flash-preview-tts'', ''Hello'', JStr ''Kore'')],
                   files = Map.empty\<rparr>)"
    by (simp add: stub_config_def synthesizeToPcm_def makeKey_str fetchPcm_def invoke_def
        Let_def start_world_def stub_outside_def stub_platform_def)
  from vapi_tts_default_sample_rate [OF auth refl m(1) m(2) nb r1, of stub_platform stub_outside
      start_world]
    vapi_tts_default_sample_rate [OF auth refl m(1) m(2) nb r2, of stub_platform stub_outside
      start_world]
  show ?thesis
    by (simp add: synth)
qed

subsection \<open>Batches\<close>

lemma batch_job_shape:
  "map fst (batch_job C P req w item ext)
     = [''text'', ''url'', ''model'', ''voice'', ''sampleRate'', ''channels'']
   \<or> map fst (batch_job C P req w item ext) = [''error'']"
  by (simp add: batch_job_def job_failed_def Let_def split: sum.split option.split)

lemma set_success_object:
  "set [a, b, c, d, e, f] = insert a (set [b, e, f, c, d])"
  by auto

lemma batch_job_vs_tts_url:
  fixes body :: tts_body
  assumes "body_text body = item_text item" and "body_voice body = item_voice item"
    and "body_model body = item_model item"
  shows "(status (fst (tts_url C P req body ext w)) = 200 \<longrightarrow>
            (\<exists>t. js_toString P (or_else (item_text item) (JStr [])) = Inr t
                \<and> set (batch_job C P req w item ext)
                  = insert (''text'', JStr t) (set (json_body (fst (tts_url C P req body ext w))))))
         \<and> (status (fst (tts_url C P req body ext w)) \<noteq> 200 \<longrightarrow>
              map fst (batch_job C P req w item ext) = [''error''])"
proof (cases "js_toString P (or_else (item_text item) (JStr []))")
  case (Inl e)
  with assms show ?thesis
    by (simp add: tts_url_def batch_job_def tts_failed_def job_failed_def)
next
  case (Inr t)
  show ?thesis
  proof (cases "trim t = []")
    case True
    with Inr assms show ?thesis
      by (simp add: tts_url_def batch_job_def MISSING_TEXT_def)
  next
    case False
    let ?v = "or_else (item_voice item) (JStr (DEFAULT_VOICE C))"
    let ?m = "or_else (item_model item) (JStr (DEFAULT_MODEL C))"
    obtain res w' where s: "synthesizeToWav P t ?v ?m ext w = (res, w')"
      by (cases "synthesizeToWav P t ?v ?m ext w") blast
    show ?thesis
    proof (cases res)
      case (Inl e)
      with s False Inr assms show ?thesis
        by (simp add: tts_url_def batch_job_def tts_failed_def job_failed_def Let_def)
    next
      case buf: (Inr buf)
      show ?thesis
      proof (cases "fs_error ext")
        case None
        let ?url = "JStr (getPublicOrigin req @ ''/audio/'' @ uuid ext @ ''.wav'')"
        from None buf s False Inr assms
        have tu: "fst (tts_url C P req body ext w)
                  = Json 200 [(''url'', ?url), (''sampleRate'', JNum 24000), (''channels'', JNum 1),
                              (''model'', ?m), (''voice'', ?v)]"
          by (simp add: tts_url_def Let_def)
        from None buf s False Inr
        have bj: "batch_job C P req w item ext
                  = [(''text'', JStr t), (''url'', ?url), (''model'', ?m), (''voice'', ?v),
                     (''sampleRate'', JNum 24000), (''channels'', JNum 1)]"
          by (simp add: batch_job_def Let_def)
        have "set (batch_job C P req w item ext)
              = insert (''text'', JStr t) (set (json_body (fst (tts_url C P req body ext w))))"
          unfolding tu bj json_body.simps by (rule set_success_object)
        moreover have "status (fst (tts_url C P req body ext w)) = 200"
          unfolding tu by simp
        ultimately show ?thesis
          using Inr by blast
      next
        case (Some e)
        with buf s False Inr assms show ?thesis
          by (simp add: tts_url_def batch_job_def tts_failed_def job_failed_def Let_def)
      qed
    qed
  qed
qed

lemma batch_results_nth:
  "i < length its \<Longrightarrow>
     batch_results C P req its exts w ! i = JObj (batch_job C P req w (its ! i) (exts i))"
  by (simp add: batch_results_def)

text \<open>
  C8, as amended. For a non-empty list of items the response of \<open>/batch-url\<close> carries one
  result for each item, at the position of the item. The result of an item is the result
  of its own job in the world as the batch found it: either a success object with the
  properties \<open>text\<close>, \<open>url\<close>, \<open>model\<close>, \<open>voice\<close>, \<open>sampleRate\<close>, \<open>channels\<close>, or an object
  with the single property \<open>error\<close>. Compared with \<open>/tts-url\<close> for the same text, voice and
  model: where that route answers 200 the success object has the properties of that
  answer, with the same values, and in addition the property \<open>text\<close> with the item's
  text as it was sent, converted to a string and not trimmed; where it does not, the
  result is the error object. Replacing another item, and what the outside world
  answers to it, leaves the result of an item unchanged.
\<close>

theorem batch_url_results:
  assumes "items = Some its" and "its \<noteq> []"
  shows "batch_url C P req items exts w
           = Json 200 [(''results'', JArr (batch_results C P req its exts w))]
    \<and> length (batch_results C P req its exts w) = length its
    \<and> (\<forall>i < length its.
          batch_results C P req its exts w ! i = JObj (batch_job C P req w (its ! i) (exts i))
          \<and> (properties (batch_results C P req its exts w ! i)
                = [''text'', ''url'', ''model'', ''voice'', ''sampleRate'', ''channels'']
              \<or> properties (batch_results C P req its exts w ! i) = [''error''])
          \<and> (\<forall>body :: tts_body. body_text body = item_text (its ! i) \<and> body_voice body = item_voice (its ! i)
                  \<and> body_model body = item_model (its ! i) \<longrightarrow>
                (status (fst (tts_url C P req body (exts i) w)) = 200 \<longrightarrow>
                   (\<exists>t. js_toString P (or_else (item_text (its ! i)) (JStr [])) = Inr t
                       \<and> set (batch_job C P req w (its ! i) (exts i))
                         = insert (''text'', JStr t)
                             (set (json_body (fst (tts_url C P req body (exts i) w))))))
                \<and> (status (fst (tts_url C P req body (exts i) w)) \<noteq> 200 \<longrightarrow>
                     properties (batch_results C P req its exts w ! i) = [''error''])))
    \<and> (\<forall>i j x y. i < length its \<and> i \<noteq> j \<longrightarrow>
          batch_results C P req (its[j := x]) (exts(j := y)) w ! i
          = batch_results C P req its exts w ! i)"
proof (intro conjI allI impI)
  show "batch_url C P req items exts w
          = Json 200 [(''results'', JArr (batch_results C P req its exts w))]"
    using assms by (simp add: batch_url_def)
  show "length (batch_results C P req its exts w) = length its"
    by (simp add: batch_results_def)
next
  fix i
  assume i: "i < length its"
  then show "batch_results C P req its exts w ! i = JObj (batch_job C P req w (its ! i) (exts i))"
    by (rule batch_results_nth)
  show "properties (batch_results C P req its exts w ! i)
          = [''text'', ''url'', ''model'', ''voice'', ''sampleRate'', ''channels'']
        \<or> properties (batch_results C P req its exts w ! i) = [''error'']"
    using batch_job_shape [of C P req w "its ! i" "exts i"] i by (simp add: batch_results_nth)
next
  fix i and body :: tts_body
  assume i: "i < length its"
    and b: "body_text body = item_text (its ! i) \<and> body_voice body = item_voice (its ! i)
            \<and> body_model body = item_model (its ! i)"
  note rel = batch_job_vs_tts_url [of body "its ! i" C P req "exts i" w]
  show "\<exists>t. js_toString P (or_else (item_text (its ! i)) (JStr [])) = Inr t
          \<and> set (batch_job C P req w (its ! i) (exts i))
            = insert (''text'', JStr t) (set (json_body (fst (tts_url C P req body (exts i) w))))"
    if "status (fst (tts_url C P req body (exts i) w)) = 200"
    using rel b that by blast
  show "properties (batch_results C P req its exts w ! i) = [''error'']"
    if "status (fst (tts_url C P req body (exts i) w)) \<noteq> 200"
    using rel b that i by (simp add: batch_results_nth)
next
  fix i j x y
  assume "i < length its \<and> i \<noteq> j"
  then show "batch_results C P req (its[j := x]) (exts(j := y)) w ! i
             = batch_results C P req its exts w ! i"
    by (simp add: batch_results_def)
qed

lemma stub_synth:
  "gen ext = gen stub_outside \<Longrightarrow>
     fst (synthesizeToWav stub_platform t (JStr ''Kore'') (JStr ''m1'') ext start_world)
     = Inr stub_wav"
  "fst (synthesizeToWav stub_platform t (JStr ''Kore'') (JStr ''m1'') failing_outside start_world)
     = Inl (Rejection (Some ''quota exceeded''))"
  by (simp_all add: synthesizeToWav_def makeKey_str fetchWav_def invoke_def Let_def
      start_world_def stub_outside_def failing_outside_def stub_platform_def)

lemma stub_outside_fields: "uuid stub_outside = ''0b5e''" "fs_error stub_outside = None"
  by (simp_all add: stub_outside_def)

lemma stub_job:
  assumes "trim t \<noteq> []"
  shows "gen ext = gen stub_outside \<Longrightarrow> fs_error ext = None \<Longrightarrow>
         batch_job stub_config stub_platform stub_request start_world (stub_item t) ext
         = [(''text'', JStr t), (''url'', JStr (''https://tts.example/audio/'' @ uuid ext @ ''.wav'')),
            (''model'', JStr ''m1''), (''voice'', JStr ''Kore''),
            (''sampleRate'', JNum 24000), (''channels'', JNum 1)]"
    and "batch_job stub_config stub_platform stub_request start_world (stub_item t) failing_outside
         = [(''error'', JStr ''quota exceeded'')]"
proof -
  from assms have "t \<noteq> []"
    by (auto simp: trim_def)
  then have t: "js_toString stub_platform (or_else (item_text (stub_item t)) (JStr [])) = Inr t"
    by (simp add: stub_item_def or_else_def js_toString_def)
  have vm: "or_else (item_voice (stub_item t)) (JStr (DEFAULT_VOICE stub_config)) = JStr ''Kore''"
    "or_else (item_model (stub_item t)) (JStr (DEFAULT_MODEL stub_config)) = JStr ''m1''"
    by (simp_all add: stub_item_def or_else_def)
  have o: "getPublicOrigin stub_request = ''https://tts.example''"
    by (simp add: getPublicOrigin_def stub_request_def)
  show "batch_job stub_config stub_platform stub_request start_world (stub_item t) ext
         = [(''text'', JStr t), (''url'', JStr (''https://tts.example/audio/'' @ uuid ext @ ''.wav'')),
            (''model'', JStr ''m1''), (''voice'', JStr ''Kore''),
            (''sampleRate'', JNum 24000), (''channels'', JNum 1)]"
    if "gen ext = gen stub_outside" "fs_error ext = None"
    using assms that by (simp add: batch_job_def t vm o stub_synth Let_def)
  show "batch_job stub_config stub_platform stub_request start_world (stub_item t) failing_outside
         = [(''error'', JStr ''quota exceeded'')]"
    using assms by (simp add: batch_job_def t vm stub_synth job_failed_def)
qed

lemma stub_nonblank: "trim ''Hello'' \<noteq> []" "trim ''World'' \<noteq> []" "trim ''Again'' \<noteq> []"
  by (simp_all add: trim_def white1_def white2_def white3_def)

text \<open>Three items, the backend failing for the second: three results in the order of the
  items, the second with the error only.\<close>

theorem batch_url_results_witness:
  "batch_url stub_config stub_platform stub_request
     (Some [stub_item ''Hello'', stub_item ''World'', stub_item ''Again'']) stub_answers start_world
   = Json 200 [(''results'', JArr
       [JObj [(''text'', JStr ''Hello''), (''url'', JStr ''https://tts.example/audio/0b5e.wav''),
              (''model'', JStr ''m1''), (''voice'', JStr ''Kore''),
              (''sampleRate'', JNum 24000), (''channels'', JNum 1)],
        JObj [(''error'', JStr ''quota exceeded'')],
        JObj [(''text'', JStr ''Again''), (''url'', JStr ''https://tts.example/audio/7c21.wav''),
              (''model'', JStr ''m1''), (''voice'', JStr ''Kore''),
              (''sampleRate'', JNum 24000), (''channels'', JNum 1)]])]"
proof -
  let ?its = "[stub_item ''Hello'', stub_item ''World'', stub_item ''Again'']"
  have ne: "?its \<noteq> []"
    by simp
  have upt3: "[0..<length ?its] = [0, 1, 2]"
    by (simp add: upt_rec)
  have "batch_results stub_config stub_platform stub_request ?its stub_answers start_world
        = [JObj [(''text'', JStr ''Hello''), (''url'', JStr ''https://tts.example/audio/0b5e.wav''),
              (''model'', JStr ''m1''), (''voice'', JStr ''Kore''),
              (''sampleRate'', JNum 24000), (''channels'', JNum 1)],
           JObj [(''error'', JStr ''quota exceeded'')],
           JObj [(''text'', JStr ''Again''), (''url'', JStr ''https://tts.example/audio/7c21.wav''),
              (''model'', JStr ''m1''), (''voice'', JStr ''Kore''),
              (''sampleRate'', JNum 24000), (''channels'', JNum 1)]]"
    unfolding batch_results_def upt3
    by (simp add: stub_answers_def stub_job stub_nonblank stub_outside_fields)
  with batch_url_results [OF refl ne, of stub_config stub_platform stub_request stub_answers
      start_world]
  show ?thesis
    by simp
qed

text \<open>
  C8 as stated fails: the success object of a batch is not the object \<open>/tts-url\<close> answers
  for the same request; it has the property \<open>text\<close>, which that answer lacks.
\<close>

theorem batch_success_has_text:
  "properties (batch_results stub_config stub_platform stub_request [stub_item ''Hello'']
                 stub_answers start_world ! 0)
     = [''text'', ''url'', ''model'', ''voice'', ''sampleRate'', ''channels'']
   \<and> map fst (json_body (fst (tts_url stub_config stub_platform stub_request (stub_body ''Hello'')
                                 stub_outside start_world)))
     = [''url'', ''sampleRate'', ''channels'', ''model'', ''voice'']"
proof -
  have "batch_results stub_config stub_platform stub_request [stub_item ''Hello'']
          stub_answers start_world ! 0
        = JObj (batch_job stub_config stub_platform stub_request start_world (stub_item ''Hello'')
                  stub_outside)"
    by (simp add: batch_results_def stub_answers_def)
  moreover have "js_toString stub_platform (or_else (body_text (stub_body ''Hello'')) (JStr []))
                 = Inr ''Hello''"
    by (simp add: stub_body_def or_else_def js_toString_def)
  moreover have "or_else (body_voice (stub_body ''Hello'')) (JStr (DEFAULT_VOICE stub_config))
                 = JStr ''Kore''"
    "or_else (body_model (stub_body ''Hello'')) (JStr (DEFAULT_MODEL stub_config)) = JStr ''m1''"
    by (simp_all add: stub_body_def or_else_def)
  ultimately show ?thesis
    by (simp add: stub_job stub_nonblank tts_url_def stub_first_call Let_def stub_outside_fields)
qed

end
